theory Spec2Isabelle
  imports Complex_Main "HOL-Library.AList"
begin

section \<open>Python values and exceptions\<close>

text \<open>
  Exceptions of the Python runtime and of the libraries the collectors call. An operation
  that may raise returns \<open>exn + 'a\<close>, with \<open>Inl\<close> the exception raised.
\<close>

datatype exn =
    ConnectionError
  | Timeout
  | HTTPError int
  | JSONDecodeError
  | AttributeError
  | TypeError
  | KeyError
  | ValueError
  | OverflowError
  | InterfaceError
  | OperationalError

text \<open>
  A value decoded from a JSON response body (\<^verbatim>\<open>response.json()\<close>): \<^verbatim>\<open>None\<close>, a bool, an
  int, a str, a list or a dict with string keys. A dict is the list of its items in
  insertion order, each key once. Numbers of a payload are integers here; a str is the list
  of its code points, each below 256.
\<close>

datatype json =
    JNull
  | JBool bool
  | JInt int
  | JStr string
  | JArr "json list"
  | JObj "(string \<times> json) list"

text \<open>Truth value testing (\<^verbatim>\<open>if x:\<close>, \<^verbatim>\<open>not x\<close>, \<^verbatim>\<open>x or y\<close>).\<close>

fun truthy :: "json \<Rightarrow> bool" where
  "truthy JNull = False"
| "truthy (JBool b) = b"
| "truthy (JInt n) = (n \<noteq> 0)"
| "truthy (JStr s) = (s \<noteq> [])"
| "truthy (JArr xs) = (xs \<noteq> [])"
| "truthy (JObj kvs) = (kvs \<noteq> [])"

definition py_or :: "json \<Rightarrow> json \<Rightarrow> json" where
  "py_or x y = (if truthy x then x else y)"

fun is_dict :: "json \<Rightarrow> bool" where
  "is_dict (JObj kvs) = True"
| "is_dict v = False"

text \<open>\<^verbatim>\<open>x.get(key, default)\<close>: only a dict has the method.\<close>

fun py_get :: "json \<Rightarrow> string \<Rightarrow> json \<Rightarrow> exn + json" where
  "py_get (JObj kvs) k d = Inr (case map_of kvs k of Some v \<Rightarrow> v | None \<Rightarrow> d)"
| "py_get v k d = Inl AttributeError"

text \<open>The recurring \<^verbatim>\<open>x.get(key, default) or default\<close>.\<close>

definition get_or :: "json \<Rightarrow> string \<Rightarrow> json \<Rightarrow> exn + json" where
  "get_or x k d = (case py_get x k d of Inl e \<Rightarrow> Inl e | Inr v \<Rightarrow> Inr (py_or v d))"

text \<open>\<^verbatim>\<open>key in x\<close> for a dict \<open>x\<close> (the callers test \<^verbatim>\<open>isinstance(x, dict)\<close> first).\<close>

fun has_key :: "json \<Rightarrow> string \<Rightarrow> bool" where
  "has_key (JObj kvs) k = (map_of kvs k \<noteq> None)"
| "has_key v k = False"

text \<open>
  \<^verbatim>\<open>for x in v\<close>: a list gives its elements, a dict its keys, a str its characters;
  anything else is not iterable.
\<close>

fun py_iter :: "json \<Rightarrow> exn + json list" where
  "py_iter (JArr xs) = Inr xs"
| "py_iter (JObj kvs) = Inr (map (\<lambda>kv. JStr (fst kv)) kvs)"
| "py_iter (JStr s) = Inr (map (\<lambda>c. JStr [c]) s)"
| "py_iter v = Inl TypeError"

text \<open>Sequencing of operations that may raise: the first exception ends the block.\<close>

definition exn_bind :: "exn + 'a \<Rightarrow> ('a \<Rightarrow> exn + 'b) \<Rightarrow> exn + 'b" where
  "exn_bind m f = (case m of Inl e \<Rightarrow> Inl e | Inr v \<Rightarrow> f v)"

text \<open>A loop body run over a list, threading the accumulated state.\<close>

fun exn_fold :: "('a \<Rightarrow> 's \<Rightarrow> exn + 's) \<Rightarrow> 'a list \<Rightarrow> 's \<Rightarrow> exn + 's" where
  "exn_fold f [] s = Inr s"
| "exn_fold f (x # xs) s = (case f x s of Inl e \<Rightarrow> Inl e | Inr s' \<Rightarrow> exn_fold f xs s')"

subsection \<open>Strings\<close>

definition digit_char :: "nat \<Rightarrow> char" where
  "digit_char d = char_of (48 + d)"

function str_nat :: "nat \<Rightarrow> string" where
  "str_nat n = (if n < 10 then [digit_char n] else str_nat (n div 10) @ [digit_char (n mod 10)])"
  by pat_completeness auto
termination
  by (relation "measure id") auto

declare str_nat.simps [simp del]

text \<open>\<^verbatim>\<open>str(i)\<close> for an int.\<close>

definition str_int :: "int \<Rightarrow> string" where
  "str_int i = (if i < 0 then CHR ''-'' # str_nat (nat (- i)) else str_nat (nat i))"

definition hex_char :: "nat \<Rightarrow> char" where
  "hex_char d = (if d < 10 then char_of (48 + d) else char_of (87 + d))"

text \<open>
  \<^verbatim>\<open>repr\<close> of a str: quoted with \<^verbatim>\<open>'\<close>, or with \<^verbatim>\<open>"\<close> when the text has a \<^verbatim>\<open>'\<close> and no
  \<^verbatim>\<open>"\<close>; the quote and the backslash escaped, tab, newline and carriage return by letter,
  every other non-printable code point as \<^verbatim>\<open>\xNN\<close>.
\<close>

definition printable :: "char \<Rightarrow> bool" where
  "printable c =
     (let n = (of_char c :: nat) in (32 \<le> n \<and> n < 127) \<or> (161 \<le> n \<and> n \<noteq> 173))"

definition repr_char :: "char \<Rightarrow> char \<Rightarrow> string" where
  "repr_char q c =
     (if c = q \<or> c = CHR 0x5C then [CHR 0x5C, c]
      else if c = CHR 0x09 then [CHR 0x5C, CHR ''t'']
      else if c = CHR 0x0A then [CHR 0x5C, CHR ''n'']
      else if c = CHR 0x0D then [CHR 0x5C, CHR ''r'']
      else if printable c then [c]
      else [CHR 0x5C, CHR ''x'', hex_char ((of_char c :: nat) div 16),
            hex_char ((of_char c :: nat) mod 16)])"

definition repr_str :: "string \<Rightarrow> string" where
  "repr_str s =
     (let q = (if CHR 0x27 \<in> set s \<and> CHR 0x22 \<notin> set s then CHR 0x22 else CHR 0x27)
      in [q] @ concat (map (repr_char q) s) @ [q])"

text \<open>\<^verbatim>\<open>sep.join(parts)\<close>.\<close>

fun py_join :: "string \<Rightarrow> string list \<Rightarrow> string" where
  "py_join sep [] = []"
| "py_join sep [x] = x"
| "py_join sep (x # y # ys) = x @ sep @ py_join sep (y # ys)"

text \<open>\<^verbatim>\<open>repr(v)\<close> and \<^verbatim>\<open>str(v)\<close>, which is what an f-string writes for \<^verbatim>\<open>{v}\<close>.\<close>

fun py_repr :: "json \<Rightarrow> string" where
  "py_repr JNull = ''None''"
| "py_repr (JBool b) = (if b then ''True'' else ''False'')"
| "py_repr (JInt i) = str_int i"
| "py_repr (JStr s) = repr_str s"
| "py_repr (JArr xs) = ''['' @ py_join '', '' (map py_repr xs) @ '']''"
| "py_repr (JObj kvs) =
     ''{'' @ py_join '', '' (map (\<lambda>kv. repr_str (fst kv) @ '': '' @ py_repr (snd kv)) kvs) @ ''}''"

fun py_str :: "json \<Rightarrow> string" where
  "py_str (JStr s) = s"
| "py_str v = py_repr v"

text \<open>\<^verbatim>\<open>s.lower()\<close> on code points below 256: A-Z and the accented capitals.\<close>

definition lower_char :: "char \<Rightarrow> char" where
  "lower_char c =
     (let n = (of_char c :: nat)
      in if (65 \<le> n \<and> n \<le> 90) \<or> (192 \<le> n \<and> n \<le> 222 \<and> n \<noteq> 215) then char_of (n + 32) else c)"

definition lower :: "string \<Rightarrow> string" where
  "lower s = map lower_char s"

text \<open>\<^verbatim>\<open>s.split()\<close>: the maximal runs of non-whitespace characters.\<close>

definition is_space :: "char \<Rightarrow> bool" where
  "is_space c =
     (let n = (of_char c :: nat)
      in (9 \<le> n \<and> n \<le> 13) \<or> (28 \<le> n \<and> n \<le> 32) \<or> n = 133 \<or> n = 160)"

fun split_acc :: "string \<Rightarrow> string \<Rightarrow> string list" where
  "split_acc cur [] = (if cur = [] then [] else [cur])"
| "split_acc cur (c # cs) =
     (if is_space c then (if cur = [] then split_acc [] cs else cur # split_acc [] cs)
      else split_acc (cur @ [c]) cs)"

definition split :: "string \<Rightarrow> string list" where
  "split s = split_acc [] s"

text \<open>\<^verbatim>\<open>needle in hay\<close> for two strs: \<open>needle\<close> occurs as a substring.\<close>

fun contains :: "string \<Rightarrow> string \<Rightarrow> bool" where
  "contains hay needle =
     (take (length needle) hay = needle \<or> (case hay of [] \<Rightarrow> False | c # cs \<Rightarrow> contains cs needle))"

declare contains.simps [simp del]

section \<open>The partial-date formatter\<close>

text \<open>
  \<^verbatim>\<open>OrcidClient._format_date\<close>. The registry writes a date as
  \<^verbatim>\<open>{"year": {"value": ...}, "month": {"value": ...}, "day": {"value": ...}}\<close>, any part
  of it absent or null. The method has no handler of its own: \<^verbatim>\<open>.get\<close> on a date object
  that is not a dict raises.
\<close>

definition value_if_dict :: "json \<Rightarrow> json" where
  "value_if_dict obj = (case obj of JObj kvs \<Rightarrow> (case map_of kvs ''value'' of Some v \<Rightarrow> v | None \<Rightarrow> JNull)
                                  | _ \<Rightarrow> JNull)"

definition format_date :: "json \<Rightarrow> exn + string option" where
  "format_date date_obj =
     (if \<not> truthy date_obj then Inr None
      else
        exn_bind (get_or date_obj ''year'' (JObj [])) (\<lambda>year_obj.
        exn_bind (get_or date_obj ''month'' (JObj [])) (\<lambda>month_obj.
        exn_bind (get_or date_obj ''day'' (JObj [])) (\<lambda>day_obj.
          let year = value_if_dict year_obj;
              month = value_if_dict month_obj;
              day = value_if_dict day_obj
          in if truthy year then
               (if truthy month \<and> truthy day then
                  Inr (Some (py_str year @ ''-'' @ py_str month @ ''-'' @ py_str day))
                else if truthy month then Inr (Some (py_str year @ ''-'' @ py_str month))
                else Inr (Some (py_str year)))
             else Inr None))))"

section \<open>The retry decorator\<close>

text \<open>
  \<^verbatim>\<open>time.sleep(secs)\<close> for an int: a negative length raises \<^verbatim>\<open>ValueError\<close>, a length
  whose nanoseconds do not fit 64 bits raises \<^verbatim>\<open>OverflowError\<close>; otherwise the call
  returns after the wait.
\<close>

definition time_sleep :: "int \<Rightarrow> exn option" where
  "time_sleep secs =
     (if secs < - 9223372036 \<or> 9223372036 < secs then Some OverflowError
      else if secs < 0 then Some ValueError
      else None)"

text \<open>
  \<^verbatim>\<open>retry(tries, delay, backoff)\<close> of \<^verbatim>\<open>data_collector.py\<close>. The wrapped function
  \<open>func\<close> acts on a world \<open>'w\<close> (whatever it reads and changes) and either returns a
  value or raises. The loop keeps a log of what the wrapper itself did: every call of
  \<open>func\<close> and every \<^verbatim>\<open>time.sleep(mdelay)\<close> that returned. The sleep stands in the
  \<^verbatim>\<open>except\<close> block: when it raises, its exception leaves the wrapper.
\<close>

datatype retry_event = Invoked | Slept int

function retry_loop ::
  "('w \<Rightarrow> (exn + 'a) \<times> 'w) \<Rightarrow> int \<Rightarrow> int \<Rightarrow> int \<Rightarrow> 'w \<Rightarrow> retry_event list
     \<Rightarrow> (exn + 'a) \<times> 'w \<times> retry_event list" where
  "retry_loop func backoff mtries mdelay w evs =
     (if mtries > 0 then
        (case func w of
           (Inr v, w') \<Rightarrow> (Inr v, w', evs @ [Invoked])
         | (Inl e, w') \<Rightarrow>
             (case time_sleep mdelay of
                Some sleep_error \<Rightarrow> (Inl sleep_error, w', evs @ [Invoked])
              | None \<Rightarrow>
                  (if mtries - 1 = 0 then (Inl e, w', evs @ [Invoked, Slept mdelay])
                   else retry_loop func backoff (mtries - 1) (mdelay * backoff) w'
                          (evs @ [Invoked, Slept mdelay]))))
      else (case func w of (r, w') \<Rightarrow> (r, w', evs @ [Invoked])))"
  by pat_completeness auto
termination
  by (relation "measure (\<lambda>(func, backoff, mtries, mdelay, w, evs). nat mtries)") auto

declare retry_loop.simps [simp del]

definition retry_trace ::
  "int \<Rightarrow> int \<Rightarrow> int \<Rightarrow> ('w \<Rightarrow> (exn + 'a) \<times> 'w) \<Rightarrow> 'w \<Rightarrow> (exn + 'a) \<times> 'w \<times> retry_event list" where
  "retry_trace tries delay backoff func w = retry_loop func backoff tries delay w []"

text \<open>The decorated function as its callers see it: result and world, without the log.\<close>

definition retry ::
  "int \<Rightarrow> int \<Rightarrow> int \<Rightarrow> ('w \<Rightarrow> (exn + 'a) \<times> 'w) \<Rightarrow> 'w \<Rightarrow> (exn + 'a) \<times> 'w" where
  "retry tries delay backoff func w =
     (case retry_trace tries delay backoff func w of (r, w', evs) \<Rightarrow> (r, w'))"


section \<open>The registry client\<close>

subsection \<open>Researcher profiles\<close>

text \<open>
  A researcher profile is a Python dict. Its values are JSON values, except
  \<^verbatim>\<open>match_confidence\<close>, a float, taken here as the exact rational it stands for: the
  contributions to a score are multiples of one tenth, and their sum, capped at 1 and
  rounded by \<^verbatim>\<open>round(..., 2)\<close>, has the same two decimals in either arithmetic.
\<close>

datatype pyval = Json json | PyFloat rat

type_synonym pydict = "(string \<times> pyval) list"

definition dict_get :: "pydict \<Rightarrow> string \<Rightarrow> pyval \<Rightarrow> pyval" where
  "dict_get d k dflt = (case map_of d k of Some v \<Rightarrow> v | None \<Rightarrow> dflt)"

definition dict_has :: "pydict \<Rightarrow> string \<Rightarrow> bool" where
  "dict_has d k = (map_of d k \<noteq> None)"

definition dict_set :: "pydict \<Rightarrow> string \<Rightarrow> pyval \<Rightarrow> pydict" where
  "dict_set d k v = AList.update k v d"

subsection \<open>Requests\<close>

text \<open>
  One HTTP GET as the client makes it: \<^verbatim>\<open>rate_limiter.wait()\<close>, \<^verbatim>\<open>requests.get\<close>,
  \<^verbatim>\<open>raise_for_status()\<close> and \<^verbatim>\<open>response.json()\<close>. The network \<open>net\<close> answers a request
  from its own state \<open>'r\<close> with the decoded body or with the exception one of the three
  calls raises. The world keeps the requests made so far, oldest first.
\<close>

datatype request = Get string "(string \<times> json) list"

record 'r world =
  remote :: 'r
  requests :: "request list"

type_synonym 'r network = "request \<Rightarrow> 'r \<Rightarrow> (exn + json) \<times> 'r"

definition http_get_json ::
  "'r network \<Rightarrow> string \<Rightarrow> (string \<times> json) list \<Rightarrow> 'r world \<Rightarrow> (exn + json) \<times> 'r world" where
  "http_get_json net url params w =
     (case net (Get url params) (remote w) of
        (res, r') \<Rightarrow> (res, \<lparr>remote = r', requests = requests w @ [Get url params]\<rparr>))"

record orcid_client =
  base_url :: string
  debug_mode :: bool

subsection \<open>get_researcher_info\<close>

text \<open>\<^verbatim>\<open>obj.get(key) if obj else ""\<close>.\<close>

definition field_if :: "json \<Rightarrow> string \<Rightarrow> exn + json" where
  "field_if obj key = (if truthy obj then py_get obj key JNull else Inr (JStr []))"

definition set_name :: "json \<Rightarrow> pydict \<Rightarrow> exn + pydict" where
  "set_name person researcher =
     exn_bind (get_or person ''name'' (JObj [])) (\<lambda>name.
     if truthy name then
       exn_bind (get_or name ''given-names'' (JObj [])) (\<lambda>given_names_obj.
       exn_bind (get_or name ''family-name'' (JObj [])) (\<lambda>family_name_obj.
       exn_bind (field_if given_names_obj ''value'') (\<lambda>given_names.
       exn_bind (field_if family_name_obj ''value'') (\<lambda>family_name.
         let r1 = (if truthy given_names \<and> truthy family_name then
                     dict_set researcher ''name''
                       (Json (JStr (py_str given_names @ '' '' @ py_str family_name)))
                   else if truthy given_names then dict_set researcher ''name'' (Json given_names)
                   else if truthy family_name then dict_set researcher ''name'' (Json family_name)
                   else researcher);
             r2 = dict_set r1 ''given_name'' (Json given_names);
             r3 = dict_set r2 ''family_name'' (Json family_name)
         in exn_bind (get_or name ''credit-name'' (JObj [])) (\<lambda>credit_name_obj.
            exn_bind (field_if credit_name_obj ''value'') (\<lambda>credit_name.
              Inr (if truthy credit_name then dict_set r3 ''credit_name'' (Json credit_name)
                   else r3)))))))
     else Inr researcher)"

definition set_biography :: "json \<Rightarrow> pydict \<Rightarrow> exn + pydict" where
  "set_biography person researcher =
     exn_bind (get_or person ''biography'' (JObj [])) (\<lambda>biography_obj.
     exn_bind (field_if biography_obj ''content'') (\<lambda>biography.
       Inr (if truthy biography then dict_set researcher ''biography'' (Json biography)
            else researcher)))"

text \<open>
  The loops over keywords and other names: an item counts when it is a non-empty dict
  with a \<^verbatim>\<open>content\<close> key.
\<close>

definition append_content :: "json \<Rightarrow> json list \<Rightarrow> exn + json list" where
  "append_content item acc =
     (if truthy item \<and> is_dict item \<and> has_key item ''content'' then
        exn_bind (py_get item ''content'' JNull) (\<lambda>c. Inr (acc @ [c]))
      else Inr acc)"

definition set_keywords :: "json \<Rightarrow> pydict \<Rightarrow> exn + pydict" where
  "set_keywords person researcher =
     exn_bind (get_or person ''keywords'' (JObj [])) (\<lambda>keywords_obj.
     exn_bind (get_or keywords_obj ''keyword'' (JArr [])) (\<lambda>keywords.
       if truthy keywords then
         exn_bind (py_iter keywords) (\<lambda>ks.
         exn_bind (exn_fold append_content ks []) (\<lambda>contents.
           Inr (dict_set researcher ''keywords'' (Json (JArr contents)))))
       else Inr researcher))"

definition set_other_names :: "json \<Rightarrow> pydict \<Rightarrow> exn + pydict" where
  "set_other_names person researcher =
     exn_bind (get_or person ''other-names'' (JObj [])) (\<lambda>other_names_container.
     exn_bind (get_or other_names_container ''other-name'' (JArr [])) (\<lambda>other_name_list.
       if truthy other_name_list then
         exn_bind (py_iter other_name_list) (\<lambda>items.
         exn_bind (exn_fold append_content items []) (\<lambda>contents.
           Inr (dict_set researcher ''other_names'' (Json (JArr contents)))))
       else Inr researcher))"

definition append_email :: "json \<Rightarrow> json list \<Rightarrow> exn + json list" where
  "append_email email acc =
     (if truthy email \<and> is_dict email then
        exn_bind (py_get email ''email'' (JStr [])) (\<lambda>address.
        exn_bind (py_get email ''visibility'' (JStr [])) (\<lambda>visibility.
        exn_bind (py_get email ''verified'' (JBool False)) (\<lambda>verified.
        exn_bind (py_get email ''primary'' (JBool False)) (\<lambda>primary.
          Inr (acc @ [JObj [(''email'', address), (''visibility'', visibility),
                            (''verified'', verified), (''primary'', primary)]])))))
      else Inr acc)"

definition append_address :: "json \<Rightarrow> json list \<Rightarrow> exn + json list" where
  "append_address address acc =
     (if truthy address \<and> is_dict address then
        exn_bind (get_or address ''country'' (JObj [])) (\<lambda>country_obj.
        exn_bind (py_get country_obj ''value'' (JStr [])) (\<lambda>country.
        exn_bind (py_get address ''visibility'' (JStr [])) (\<lambda>visibility.
          Inr (acc @ [JObj [(''country'', country), (''visibility'', visibility)]]))))
      else Inr acc)"

definition set_contact :: "json \<Rightarrow> pydict \<Rightarrow> exn + pydict" where
  "set_contact person researcher =
     exn_bind (get_or person ''emails'' (JObj [])) (\<lambda>emails_obj.
     exn_bind (get_or emails_obj ''email'' (JArr [])) (\<lambda>emails.
     exn_bind (if truthy emails then
                 exn_bind (py_iter emails) (\<lambda>es.
                 exn_bind (exn_fold append_email es []) (\<lambda>entries.
                   Inr [(''emails'', JArr entries)]))
               else Inr []) (\<lambda>contact_info.
     exn_bind (get_or person ''addresses'' (JObj [])) (\<lambda>addresses_container.
     exn_bind (get_or addresses_container ''address'' (JArr [])) (\<lambda>addresses.
     exn_bind (if truthy addresses then
                 exn_bind (py_iter addresses) (\<lambda>as.
                 exn_bind (exn_fold append_address as []) (\<lambda>entries.
                   Inr (contact_info @ [(''addresses'', JArr entries)])))
               else Inr contact_info) (\<lambda>contact_info.
       Inr (if contact_info \<noteq> [] then dict_set researcher ''contact'' (Json (JObj contact_info))
            else researcher)))))))"

text \<open>One employment summary, without its dates (\<^verbatim>\<open>include_details\<close> is false).\<close>

definition append_employment :: "json \<Rightarrow> json list \<Rightarrow> exn + json list" where
  "append_employment emp acc =
     (if \<not> truthy emp \<or> \<not> is_dict emp then Inr acc
      else
        exn_bind (get_or emp ''organization'' (JObj [])) (\<lambda>org.
        exn_bind (get_or org ''address'' (JObj [])) (\<lambda>org_address.
        exn_bind (get_or org ''disambiguated-organization'' (JObj [])) (\<lambda>disambiguated_org.
        exn_bind (py_get org ''name'' (JStr [])) (\<lambda>organization.
        exn_bind (py_get emp ''department-name'' (JStr [])) (\<lambda>department.
        exn_bind (py_get emp ''role-title'' (JStr [])) (\<lambda>role.
        exn_bind (py_get org_address ''city'' (JStr [])) (\<lambda>city.
        exn_bind (py_get org_address ''region'' (JStr [])) (\<lambda>region.
        exn_bind (py_get org_address ''country'' (JStr [])) (\<lambda>country.
          Inr (acc @ [JObj [(''organization'', organization), (''department'', department),
                            (''role'', role),
                            (''location'', JObj [(''city'', city), (''region'', region),
                                                 (''country'', country)])]])))))))))))"

definition set_employments :: "json \<Rightarrow> pydict \<Rightarrow> exn + pydict" where
  "set_employments activities researcher =
     exn_bind (get_or activities ''employments'' (JObj [])) (\<lambda>employments_container.
     exn_bind (get_or employments_container ''employment-summary'' (JArr [])) (\<lambda>employment_list.
       if truthy employment_list then
         exn_bind (py_iter employment_list) (\<lambda>emps.
         exn_bind (exn_fold append_employment emps []) (\<lambda>employments.
           let r1 = dict_set researcher ''employments'' (Json (JArr employments))
           in (case employments of
                 [] \<Rightarrow> Inr r1
               | first # _ \<Rightarrow>
                   exn_bind (py_get first ''organization'' (JStr [])) (\<lambda>organization.
                     Inr (dict_set r1 ''institution'' (Json organization))))))
       else Inr researcher))"

text \<open>\<^verbatim>\<open>len(v)\<close>, \<^verbatim>\<open>v[:5]\<close> and \<^verbatim>\<open>v[0] if len(v) > 0 else None\<close> on a decoded value.\<close>

fun py_len :: "json \<Rightarrow> exn + nat" where
  "py_len (JArr xs) = Inr (length xs)"
| "py_len (JStr s) = Inr (length s)"
| "py_len (JObj kvs) = Inr (length kvs)"
| "py_len v = Inl TypeError"

fun slice5 :: "json \<Rightarrow> exn + json" where
  "slice5 (JArr xs) = Inr (JArr (take 5 xs))"
| "slice5 (JStr s) = Inr (JStr (take 5 s))"
| "slice5 v = Inl TypeError"

fun first_or_none :: "json \<Rightarrow> exn + json" where
  "first_or_none (JArr []) = Inr JNull"
| "first_or_none (JArr (x # xs)) = Inr x"
| "first_or_none (JStr []) = Inr JNull"
| "first_or_none (JStr (c # cs)) = Inr (JStr [c])"
| "first_or_none (JObj []) = Inr JNull"
| "first_or_none (JObj (kv # kvs)) = Inl KeyError"
| "first_or_none v = Inl TypeError"

definition set_doi :: "json \<Rightarrow> (string \<times> json) list \<Rightarrow> exn + (string \<times> json) list" where
  "set_doi ext_id pub_info =
     (if truthy ext_id \<and> is_dict ext_id \<and> py_get ext_id ''external-id-type'' JNull = Inr (JStr ''doi'')
      then exn_bind (py_get ext_id ''external-id-value'' JNull) (\<lambda>doi.
             Inr (if truthy doi then AList.update ''doi'' doi pub_info else pub_info))
      else Inr pub_info)"

definition append_example :: "json \<Rightarrow> json list \<Rightarrow> exn + json list" where
  "append_example work_group acc =
     (if \<not> truthy work_group \<or> \<not> is_dict work_group then Inr acc
      else
        exn_bind (get_or work_group ''work-summary'' (JArr [])) (\<lambda>work_summaries.
        if \<not> truthy work_summaries then Inr acc
        else
          exn_bind (first_or_none work_summaries) (\<lambda>work_summary.
          if \<not> truthy work_summary \<or> \<not> is_dict work_summary then Inr acc
          else
            exn_bind (get_or work_summary ''title'' (JObj [])) (\<lambda>title_container.
            exn_bind (get_or title_container ''title'' (JObj [])) (\<lambda>title_obj.
            exn_bind (py_get title_obj ''value'' (JStr [])) (\<lambda>title.
            if truthy title then
              exn_bind (py_get work_summary ''type'' JNull) (\<lambda>pub_type.
              exn_bind (get_or work_summary ''publication-date'' (JObj [])) (\<lambda>pub_date.
              exn_bind (get_or pub_date ''year'' (JObj [])) (\<lambda>year_obj.
              exn_bind (py_get year_obj ''value'' JNull) (\<lambda>year.
              exn_bind (get_or work_summary ''external-ids'' (JObj [])) (\<lambda>external_ids_container.
              exn_bind (get_or external_ids_container ''external-id'' (JArr [])) (\<lambda>external_ids.
              exn_bind (py_iter external_ids) (\<lambda>ids.
              exn_bind (exn_fold set_doi ids
                          ([(''title'', title)] @
                           (if truthy pub_type then [(''type'', pub_type)] else []) @
                           (if truthy year then [(''year'', year)] else []))) (\<lambda>pub_info.
                Inr (acc @ [JObj pub_info])))))))))
            else Inr acc))))))"

definition set_publication_examples :: "json \<Rightarrow> pydict \<Rightarrow> exn + pydict" where
  "set_publication_examples activities researcher =
     exn_bind (get_or activities ''works'' (JObj [])) (\<lambda>works_container.
     exn_bind (get_or works_container ''group'' (JArr [])) (\<lambda>works.
       if truthy works then
         exn_bind (py_len works) (\<lambda>n.
         exn_bind (slice5 works) (\<lambda>first5.
         exn_bind (py_iter first5) (\<lambda>groups.
         exn_bind (exn_fold append_example groups []) (\<lambda>examples.
           Inr (dict_set (dict_set researcher ''publications_count'' (Json (JInt (int n))))
                  ''publications_examples'' (Json (JArr examples)))))))
       else Inr researcher))"

text \<open>
  The body of the \<^verbatim>\<open>try\<close> block after the response is decoded, for
  \<^verbatim>\<open>include_details=False\<close> (the only way the search calls it).
\<close>

definition parse_profile :: "json \<Rightarrow> json \<Rightarrow> exn + pydict" where
  "parse_profile orcid data =
     exn_bind (get_or data ''person'' (JObj [])) (\<lambda>person.
     exn_bind (set_name person [(''orcid_id'', Json orcid)]) (\<lambda>r1.
     exn_bind (set_biography person r1) (\<lambda>r2.
     exn_bind (set_keywords person r2) (\<lambda>r3.
     exn_bind (set_other_names person r3) (\<lambda>r4.
     exn_bind (set_contact person r4) (\<lambda>r5.
     exn_bind (get_or data ''activities-summary'' (JObj [])) (\<lambda>activities.
     exn_bind (set_employments activities r5) (\<lambda>r6.
       set_publication_examples activities r6))))))))"

definition debug_profile :: "json \<Rightarrow> pydict" where
  "debug_profile orcid =
     [(''orcid_id'', Json orcid), (''name'', Json (JStr ''Debug Mode'')),
      (''given_name'', Json (JStr ''Debug'')), (''family_name'', Json (JStr ''Mode'')),
      (''institution'', Json (JStr ''Debug Institution''))]"

text \<open>
  The undecorated method: every exception of the \<^verbatim>\<open>try\<close> block is caught, logged, and
  answered with \<^verbatim>\<open>None\<close>.
\<close>

definition get_researcher_info_body ::
  "orcid_client \<Rightarrow> 'r network \<Rightarrow> json \<Rightarrow> 'r world \<Rightarrow> (exn + pydict option) \<times> 'r world" where
  "get_researcher_info_body client net orcid w =
     (if debug_mode client then (Inr (Some (debug_profile orcid)), w)
      else
        (case http_get_json net (base_url client @ ''/'' @ py_str orcid) [] w of
           (Inl e, w') \<Rightarrow> (Inr None, w')
         | (Inr data, w') \<Rightarrow>
             (if \<not> truthy data then (Inr None, w')
              else (case parse_profile orcid data of
                      Inl e \<Rightarrow> (Inr None, w')
                    | Inr researcher \<Rightarrow> (Inr (Some researcher), w')))))"

definition get_researcher_info ::
  "orcid_client \<Rightarrow> 'r network \<Rightarrow> json \<Rightarrow> 'r world \<Rightarrow> (exn + pydict option) \<times> 'r world" where
  "get_researcher_info client net orcid = retry 3 1 2 (get_researcher_info_body client net orcid)"

subsection \<open>search_researchers\<close>

fun py_split :: "json \<Rightarrow> exn + string list" where
  "py_split (JStr s) = Inr (split s)"
| "py_split v = Inl AttributeError"

text \<open>The minimal profile built from a search hit when \<^verbatim>\<open>max_results > 5\<close>.\<close>

definition stub_profile :: "json \<Rightarrow> json \<Rightarrow> exn + pydict" where
  "stub_profile result orcid_id =
     exn_bind (py_get result ''affiliation-path'' (JObj [])) (\<lambda>affiliation_container.
     exn_bind (if is_dict affiliation_container then
                 exn_bind (py_get affiliation_container ''affiliation-name'' (JStr []))
                   (\<lambda>affiliation_name.
                      Inr (if truthy affiliation_name then affiliation_name else JStr []))
               else Inr (JStr [])) (\<lambda>institution.
     exn_bind (py_get result ''display-name'' (JStr [])) (\<lambda>display_name.
       let researcher_info =
             [(''orcid_id'', Json orcid_id), (''orcid'', Json orcid_id),
              (''name'', Json display_name), (''display-name'', Json display_name),
              (''institution'', Json institution)]
       in if truthy display_name then
            exn_bind (py_split display_name) (\<lambda>parts.
              (case parts of
                 first # second # others \<Rightarrow>
                   Inr (dict_set (dict_set researcher_info ''given_name'' (Json (JStr first)))
                          ''family_name'' (Json (JStr (py_join '' '' (second # others)))))
               | _ \<Rightarrow>
                   Inr (dict_set (dict_set researcher_info ''given_name'' (Json display_name))
                          ''family_name'' (Json (JStr [])))))
          else Inr researcher_info)))"

text \<open>\<^verbatim>\<open>result.get("orcid-identifier", {}).get("path")\<close>.\<close>

definition hit_id :: "json \<Rightarrow> exn + json" where
  "hit_id result =
     exn_bind (py_get result ''orcid-identifier'' (JObj [])) (\<lambda>ident. py_get ident ''path'' JNull)"

text \<open>
  The loop over the hits of a search response. An exception leaves the loop; the requests
  made until then stay made.
\<close>

fun search_loop ::
  "orcid_client \<Rightarrow> 'r network \<Rightarrow> int \<Rightarrow> json list \<Rightarrow> pydict list \<Rightarrow> 'r world
     \<Rightarrow> (exn + pydict list) \<times> 'r world" where
  "search_loop client net max_results [] results w = (Inr results, w)"
| "search_loop client net max_results (result # rest) results w =
     (case hit_id result of
        Inl e \<Rightarrow> (Inl e, w)
      | Inr orcid_id \<Rightarrow>
          if \<not> truthy orcid_id then search_loop client net max_results rest results w
          else if max_results > 5 then
            (case stub_profile result orcid_id of
               Inl e \<Rightarrow> (Inl e, w)
             | Inr researcher_info \<Rightarrow>
                 search_loop client net max_results rest (results @ [researcher_info]) w)
          else
            (case get_researcher_info client net orcid_id w of
               (Inl e, w') \<Rightarrow> (Inl e, w')
             | (Inr None, w') \<Rightarrow> search_loop client net max_results rest results w'
             | (Inr (Some researcher_info), w') \<Rightarrow>
                 if researcher_info = [] then search_loop client net max_results rest results w'
                 else search_loop client net max_results rest
                        (results @ [dict_set (dict_set researcher_info ''orcid_id'' (Json orcid_id))
                                      ''orcid'' (Json orcid_id)]) w'))"

text \<open>The \<^verbatim>\<open>try\<close> block of \<^verbatim>\<open>search_researchers\<close>.\<close>

definition search_researchers_try ::
  "orcid_client \<Rightarrow> 'r network \<Rightarrow> string \<Rightarrow> int \<Rightarrow> 'r world \<Rightarrow> (exn + pydict list) \<times> 'r world" where
  "search_researchers_try client net query max_results w =
     (if debug_mode client then (Inr [], w)
      else
        (case http_get_json net (base_url client @ ''/search'')
                [(''q'', JStr query), (''rows'', JInt max_results)] w of
           (Inl e, w') \<Rightarrow> (Inl e, w')
         | (Inr data, w') \<Rightarrow>
             (case exn_bind (py_get data ''result'' (JArr [])) py_iter of
                Inl e \<Rightarrow> (Inl e, w')
              | Inr hits \<Rightarrow> search_loop client net max_results hits [] w')))"

text \<open>The undecorated method: \<^verbatim>\<open>except Exception\<close> logs the error and returns \<^verbatim>\<open>[]\<close>.\<close>

definition search_researchers_body ::
  "orcid_client \<Rightarrow> 'r network \<Rightarrow> string \<Rightarrow> int \<Rightarrow> 'r world \<Rightarrow> (exn + pydict list) \<times> 'r world" where
  "search_researchers_body client net query max_results w =
     (case search_researchers_try client net query max_results w of
        (Inl e, w') \<Rightarrow> (Inr [], w')
      | (Inr results, w') \<Rightarrow> (Inr results, w'))"

definition search_researchers ::
  "orcid_client \<Rightarrow> 'r network \<Rightarrow> string \<Rightarrow> int \<Rightarrow> 'r world \<Rightarrow> (exn + pydict list) \<times> 'r world" where
  "search_researchers client net query max_results =
     retry 3 1 2 (search_researchers_body client net query max_results)"

subsection \<open>match_researcher\<close>

text \<open>\<^verbatim>\<open>round(x, 2)\<close>: to the nearest hundredth, a tie to the even one.\<close>

definition round2 :: "rat \<Rightarrow> rat" where
  "round2 x =
     (let y = x * 100; f = \<lfloor>y\<rfloor>; r = y - of_int f
      in (if r < 1 / 2 then of_int f
          else if r > 1 / 2 then of_int (f + 1)
          else if even f then of_int f else of_int (f + 1)) / 100)"

definition quoted :: "string \<Rightarrow> string" where
  "quoted s = [CHR 0x22] @ s @ [CHR 0x22]"

definition build_query :: "string \<Rightarrow> string list option \<Rightarrow> string option \<Rightarrow> string" where
  "build_query name keywords institution =
     py_join '' AND ''
       ([quoted name] @
        (case keywords of None \<Rightarrow> [] | Some ks \<Rightarrow> map quoted (take 3 ks)) @
        (case institution of None \<Rightarrow> [] | Some i \<Rightarrow> if i \<noteq> [] then [quoted i] else []))"

text \<open>Methods and loops on a value of a profile; a float has none of them.\<close>

fun pyval_lower :: "pyval \<Rightarrow> exn + string" where
  "pyval_lower (Json (JStr s)) = Inr (lower s)"
| "pyval_lower v = Inl AttributeError"

fun pyval_split :: "pyval \<Rightarrow> exn + string list" where
  "pyval_split (Json v) = py_split v"
| "pyval_split (PyFloat q) = Inl AttributeError"

fun pyval_iter :: "pyval \<Rightarrow> exn + json list" where
  "pyval_iter (Json v) = py_iter v"
| "pyval_iter (PyFloat q) = Inl TypeError"

text \<open>\<^verbatim>\<open>[k.lower() for k in items]\<close>.\<close>

fun lower_all :: "json list \<Rightarrow> exn + string list" where
  "lower_all [] = Inr []"
| "lower_all (k # ks) =
     (case pyval_lower (Json k) of
        Inl e \<Rightarrow> Inl e
      | Inr l \<Rightarrow> (case lower_all ks of Inl e \<Rightarrow> Inl e | Inr ls \<Rightarrow> Inr (l # ls)))"

text \<open>
  The three parts of the scoring loop body. Each takes the running \<^verbatim>\<open>confidence\<close> and
  returns it updated.
\<close>

definition name_score :: "string \<Rightarrow> pydict \<Rightarrow> rat \<Rightarrow> exn + rat" where
  "name_score name researcher confidence =
     exn_bind (pyval_lower (dict_get researcher ''name'' (Json (JStr [])))) (\<lambda>full_name.
       Inr (if full_name \<noteq> [] \<and> contains full_name (lower name) then
              (if lower name = full_name then confidence + 5 / 10 + 3 / 10
               else confidence + 5 / 10)
            else confidence))"

definition keyword_score :: "string list option \<Rightarrow> pydict \<Rightarrow> rat \<Rightarrow> exn + rat" where
  "keyword_score keywords researcher confidence =
     (case keywords of
        None \<Rightarrow> Inr confidence
      | Some ks \<Rightarrow>
          if ks \<noteq> [] \<and> dict_has researcher ''keywords'' then
            exn_bind (pyval_iter (dict_get researcher ''keywords'' (Json (JArr [])))) (\<lambda>items.
            exn_bind (lower_all items) (\<lambda>researcher_keywords.
              Inr (foldl (\<lambda>c keyword. if lower keyword \<in> set researcher_keywords
                                       then c + 1 / 10 else c)
                     confidence ks)))
          else Inr confidence)"

definition institution_score :: "string option \<Rightarrow> pydict \<Rightarrow> rat \<Rightarrow> exn + rat" where
  "institution_score institution researcher confidence =
     (case institution of
        None \<Rightarrow> Inr confidence
      | Some inst \<Rightarrow>
          if inst \<noteq> [] \<and> dict_has researcher ''institution'' then
            exn_bind (pyval_split (dict_get researcher ''institution'' (Json (JStr [])))) (\<lambda>tokens.
              Inr (foldl (\<lambda>c affiliation. if contains affiliation (lower inst)
                                           then c + 2 / 10 else c)
                     confidence (map lower tokens)))
          else Inr confidence)"

definition candidate_confidence ::
  "string \<Rightarrow> string list option \<Rightarrow> string option \<Rightarrow> pydict \<Rightarrow> exn + rat" where
  "candidate_confidence name keywords institution researcher =
     exn_bind (name_score name researcher 0) (\<lambda>c1.
     exn_bind (keyword_score keywords researcher c1) (\<lambda>c2.
     exn_bind (institution_score institution researcher c2) (\<lambda>c3.
       Inr (round2 (min c3 1)))))"

text \<open>The scoring loop: every candidate gets its \<^verbatim>\<open>match_confidence\<close>.\<close>

fun score_all ::
  "string \<Rightarrow> string list option \<Rightarrow> string option \<Rightarrow> pydict list \<Rightarrow> exn + pydict list" where
  "score_all name keywords institution [] = Inr []"
| "score_all name keywords institution (researcher # rest) =
     (case candidate_confidence name keywords institution researcher of
        Inl e \<Rightarrow> Inl e
      | Inr c \<Rightarrow>
          (case score_all name keywords institution rest of
             Inl e \<Rightarrow> Inl e
           | Inr scored \<Rightarrow> Inr (dict_set researcher ''match_confidence'' (PyFloat c) # scored)))"

text \<open>
  The sort key \<^verbatim>\<open>x.get("match_confidence", 0)\<close>. The sort runs right after the scoring
  loop, when every candidate holds a float under that key.
\<close>

definition sort_key_of :: "pydict \<Rightarrow> rat" where
  "sort_key_of researcher =
     (case dict_get researcher ''match_confidence'' (Json (JInt 0)) of
        PyFloat q \<Rightarrow> q
      | Json v \<Rightarrow> 0)"

text \<open>\<^verbatim>\<open>researchers.sort(key=..., reverse=True)\<close>: descending and stable.\<close>

definition sort_by_confidence :: "pydict list \<Rightarrow> pydict list" where
  "sort_by_confidence researchers = sort_key (\<lambda>r. - sort_key_of r) researchers"

text \<open>
  \<^verbatim>\<open>match_researcher\<close>, whose \<^verbatim>\<open>except Exception\<close> logs the error and returns
  \<^verbatim>\<open>None\<close>.
\<close>

definition rank :: "string \<Rightarrow> string list option \<Rightarrow> string option \<Rightarrow> pydict list \<Rightarrow> exn + pydict list" where
  "rank name keywords institution researchers =
     (if length researchers > 1 then
        exn_bind (score_all name keywords institution researchers) (\<lambda>scored.
          Inr (sort_by_confidence scored))
      else Inr researchers)"

definition best_match :: "pydict list \<Rightarrow> pydict option" where
  "best_match researchers =
     (case researchers of
        [] \<Rightarrow> None
      | first # rest \<Rightarrow>
          Some (if \<not> dict_has first ''match_confidence''
                then dict_set first ''match_confidence'' (PyFloat (7 / 10)) else first))"

definition match_researcher ::
  "orcid_client \<Rightarrow> 'r network \<Rightarrow> string \<Rightarrow> string list option \<Rightarrow> string option \<Rightarrow> 'r world
     \<Rightarrow> (exn + pydict option) \<times> 'r world" where
  "match_researcher client net name keywords institution w =
     (case search_researchers client net (build_query name keywords institution) 5 w of
        (Inl e, w') \<Rightarrow> (Inr None, w')
      | (Inr researchers, w') \<Rightarrow>
          (if researchers = [] then (Inr None, w')
           else (case rank name keywords institution researchers of
                   Inl e \<Rightarrow> (Inr None, w')
                 | Inr ranked \<Rightarrow> (Inr (best_match ranked), w'))))"

section \<open>The permanent database\<close>

text \<open>
  A value as SQLite stores it: \<^verbatim>\<open>NULL\<close>, an \<^verbatim>\<open>INTEGER\<close> of 64 bits, a \<^verbatim>\<open>REAL\<close> or a
  \<^verbatim>\<open>TEXT\<close>.
\<close>

datatype sqlval = SqlNull | SqlInt int | SqlReal rat | SqlText string

definition int64 :: "int \<Rightarrow> bool" where
  "int64 i = (- (2 ^ 63) \<le> i \<and> i < 2 ^ 63)"

text \<open>
  What sqlite3 makes of a statement parameter: \<^verbatim>\<open>None\<close> is \<^verbatim>\<open>NULL\<close>, a bool or an int an
  \<^verbatim>\<open>INTEGER\<close> (an int outside 64 bits raises \<^verbatim>\<open>OverflowError\<close>), a float a \<^verbatim>\<open>REAL\<close>, a
  str a \<^verbatim>\<open>TEXT\<close>; a list or a dict cannot be bound and raises.
\<close>

fun sql_bind :: "pyval \<Rightarrow> exn + sqlval" where
  "sql_bind (Json JNull) = Inr SqlNull"
| "sql_bind (Json (JBool b)) = Inr (SqlInt (if b then 1 else 0))"
| "sql_bind (Json (JInt i)) = (if int64 i then Inr (SqlInt i) else Inl OverflowError)"
| "sql_bind (Json (JStr s)) = Inr (SqlText s)"
| "sql_bind (Json (JArr xs)) = Inl InterfaceError"
| "sql_bind (Json (JObj kvs)) = Inl InterfaceError"
| "sql_bind (PyFloat q) = Inr (SqlReal q)"

text \<open>
  SQLite's own conversions between numbers and text, which a column's affinity applies
  to a value of another class: the \<^verbatim>\<open>REAL\<close> made of an \<^verbatim>\<open>INTEGER\<close>, the text written for
  a \<^verbatim>\<open>REAL\<close>, and the number a text denotes when it is a well-formed numeric literal.
  They belong to the database engine and are parameters here.
\<close>

record sqlite =
  int_to_real :: "int \<Rightarrow> rat"
  real_to_text :: "rat \<Rightarrow> string"
  text_to_number :: "string \<Rightarrow> rat option"

text \<open>
  Column affinity on insert. A \<^verbatim>\<open>TEXT\<close> column (\<open>orcid\<close>) stores a number as its text.
  A \<^verbatim>\<open>REAL\<close> column (\<open>match_confidence\<close>) stores an integer as a real, and a text as the
  real it denotes when it is a numeric literal.
\<close>

fun text_affinity :: "sqlite \<Rightarrow> sqlval \<Rightarrow> sqlval" where
  "text_affinity sq (SqlInt i) = SqlText (str_int i)"
| "text_affinity sq (SqlReal q) = SqlText (real_to_text sq q)"
| "text_affinity sq v = v"

fun real_affinity :: "sqlite \<Rightarrow> sqlval \<Rightarrow> sqlval" where
  "real_affinity sq (SqlInt i) = SqlReal (int_to_real sq i)"
| "real_affinity sq (SqlText s) =
     (case text_to_number sq s of Some q \<Rightarrow> SqlReal q | None \<Rightarrow> SqlText s)"
| "real_affinity sq v = v"

text \<open>
  The tables of \<^verbatim>\<open>permanent_db.py\<close> that the mapping methods touch. \<open>orcid_mappings\<close> has
  an \<^verbatim>\<open>AUTOINCREMENT\<close> key and no uniqueness constraint; \<open>mapping_seq\<close> is the largest
  key the table's sequence has recorded. The rows stand in the order of their keys.
\<close>

record mapping_row =
  row_id :: int
  dataset_id :: int
  record_id :: string
  orcid :: sqlval
  match_confidence :: sqlval
  match_date :: nat

record dataset_row =
  ds_id :: int
  ds_name :: string
  orcid_linked :: bool

record database =
  datasets :: "dataset_row list"
  orcid_mappings :: "mapping_row list"
  mapping_seq :: int

text \<open>
  The largest key that has ever been in the table: a new row gets the next one, and no
  row can be added after the largest 64-bit key.
\<close>

definition largest_row_id :: "database \<Rightarrow> int" where
  "largest_row_id db = foldl max (mapping_seq db) (map row_id (orcid_mappings db))"

text \<open>
  \<^verbatim>\<open>register_orcid_mapping\<close>: an \<^verbatim>\<open>INSERT\<close> and an \<^verbatim>\<open>UPDATE\<close> in one transaction.
  \<open>fault\<close> is an error of the connection or of the file, \<open>now\<close> the
  \<^verbatim>\<open>CURRENT_TIMESTAMP\<close> of the insert. Any exception (the fault, a parameter that cannot
  be bound, a dataset id outside 64 bits, a full key space) rolls back and returns
  \<^verbatim>\<open>False\<close>.
\<close>

definition register_orcid_mapping ::
  "sqlite \<Rightarrow> exn option \<Rightarrow> nat \<Rightarrow> database \<Rightarrow> int \<Rightarrow> string \<Rightarrow> pyval \<Rightarrow> pyval
     \<Rightarrow> bool \<times> database" where
  "register_orcid_mapping sq fault now db ds rec_id orcid_id confidence =
     (case fault of
        Some e \<Rightarrow> (False, db)
      | None \<Rightarrow>
          if \<not> int64 ds then (False, db)
          else
            (case sql_bind orcid_id of
               Inl e \<Rightarrow> (False, db)
             | Inr bound_orcid \<Rightarrow>
                 (case sql_bind confidence of
                    Inl e \<Rightarrow> (False, db)
                  | Inr bound_confidence \<Rightarrow>
                      if \<not> int64 (largest_row_id db + 1) then (False, db)
                      else
                        (True,
                         db\<lparr>orcid_mappings := orcid_mappings db @
                                [\<lparr>row_id = largest_row_id db + 1, dataset_id = ds,
                                  record_id = rec_id,
                                  orcid = text_affinity sq bound_orcid,
                                  match_confidence = real_affinity sq bound_confidence,
                                  match_date = now\<rparr>],
                            mapping_seq := largest_row_id db + 1,
                            datasets :=
                              map (\<lambda>d. if ds_id d = ds then d\<lparr>orcid_linked := True\<rparr> else d)
                                (datasets db)\<rparr>))))"

text \<open>
  \<^verbatim>\<open>get_orcid_mappings\<close>: the rows of a dataset, of an identifier, of both, in the order of
  their keys, or all rows by descending date, rows of one date in the order of their keys.
  An exception (the fault, a dataset id outside 64 bits) returns \<^verbatim>\<open>[]\<close>.
\<close>

definition get_orcid_mappings ::
  "exn option \<Rightarrow> database \<Rightarrow> int option \<Rightarrow> string option \<Rightarrow> mapping_row list" where
  "get_orcid_mappings fault db ds orcid_id =
     (case fault of
        Some e \<Rightarrow> []
      | None \<Rightarrow>
          (case (ds, orcid_id) of
             (Some d, Some oid) \<Rightarrow>
               if int64 d
               then filter (\<lambda>r. dataset_id r = d \<and> orcid r = SqlText oid) (orcid_mappings db)
               else []
           | (Some d, None) \<Rightarrow>
               if int64 d then filter (\<lambda>r. dataset_id r = d) (orcid_mappings db) else []
           | (None, Some oid) \<Rightarrow> filter (\<lambda>r. orcid r = SqlText oid) (orcid_mappings db)
           | (None, None) \<Rightarrow> sort_key (\<lambda>r. - int (match_date r)) (orcid_mappings db)))"

section \<open>Matching the rows of a dataset\<close>

fun pyval_truthy :: "pyval \<Rightarrow> bool" where
  "pyval_truthy (Json v) = truthy v"
| "pyval_truthy (PyFloat q) = (q \<noteq> 0)"

text \<open>
  The body of the row loop of \<^verbatim>\<open>match_researchers_with_orcid\<close> in \<^verbatim>\<open>main.py\<close>, from the
  name, keywords and institution read from the row: match, and register the mapping when
  a researcher with an \<^verbatim>\<open>orcid\<close> came back. The result says whether \<^verbatim>\<open>match_count\<close> grows.
\<close>

definition match_row ::
  "orcid_client \<Rightarrow> 'r network \<Rightarrow> sqlite \<Rightarrow> exn option \<Rightarrow> nat \<Rightarrow> int \<Rightarrow> string \<Rightarrow> string
     \<Rightarrow> string list option \<Rightarrow> string option \<Rightarrow> 'r world \<times> database
     \<Rightarrow> bool \<times> 'r world \<times> database" where
  "match_row client net sq fault now ds rec_id name keywords institution state =
     (case state of (w, db) \<Rightarrow>
        if name = [] then (False, w, db)
        else
          (case match_researcher client net name keywords institution w of
             (Inl e, w') \<Rightarrow> (False, w', db)
           | (Inr None, w') \<Rightarrow> (False, w', db)
           | (Inr (Some researcher), w') \<Rightarrow>
               if researcher \<noteq> [] \<and> pyval_truthy (dict_get researcher ''orcid'' (Json JNull)) then
                 (case register_orcid_mapping sq fault now db ds rec_id
                         (dict_get researcher ''orcid'' (Json JNull))
                         (dict_get researcher ''match_confidence'' (PyFloat (1 / 2))) of
                    (success, db') \<Rightarrow> (success, w', db'))
               else (False, w', db)))"

section \<open>Publication search: authors\<close>

text \<open>
  An \<^verbatim>\<open>Author\<close> element of a fetched record as the loop reads it: the text of its first
  \<^verbatim>\<open>LastName\<close> and of its first \<^verbatim>\<open>ForeName\<close> descendant, when there is one. A tag that
  was found is true whatever its text.
\<close>

record pm_author =
  LastName :: "string option"
  ForeName :: "string option"

text \<open>
  A \<^verbatim>\<open>PubmedArticle\<close> element: for each tag the loop looks up, what \<^verbatim>\<open>find\<close> returns.
  \<open>Journal\<close> holds the text of the journal's \<^verbatim>\<open>Title\<close>, if it has one; an entry of
  \<open>ArticleIdList\<close> is the \<^verbatim>\<open>IdType\<close> attribute and the text of an \<^verbatim>\<open>ArticleId\<close>.
\<close>

record pub_date =
  Year :: "string option"
  Month :: "string option"
  Day :: "string option"

record pubmed_article =
  PMID :: "string option"
  ArticleTitle :: "string option"
  AbstractText :: "string option"
  AuthorList :: "pm_author list option"
  PubDate :: "pub_date option"
  Journal :: "string option option"
  ArticleIdList :: "(string option \<times> string) list option"

record article_data =
  pmid :: "string option"
  title :: "string option"
  abstract :: "string option"
  authors :: "string list"
  publication_date :: "string option"
  journal :: "string option"
  doi :: "string option"
  authors_str :: "string option"

definition author_name :: "pm_author \<Rightarrow> string option" where
  "author_name author =
     (let parts = (case LastName author of Some l \<Rightarrow> [l] | None \<Rightarrow> []) @
                  (case ForeName author of Some f \<Rightarrow> [f] | None \<Rightarrow> [])
      in if parts \<noteq> [] then Some (py_join '' '' parts) else None)"

definition article_authors :: "pubmed_article \<Rightarrow> string list" where
  "article_authors article =
     (case AuthorList article of
        None \<Rightarrow> []
      | Some author_list \<Rightarrow> List.map_filter author_name author_list)"

text \<open>The loop over \<^verbatim>\<open>PubmedArticle\<close> elements in \<^verbatim>\<open>PubMedCollector.search_articles\<close>.\<close>

definition date_parts :: "pub_date \<Rightarrow> string list" where
  "date_parts d =
     (case Year d of Some y \<Rightarrow> [y] | None \<Rightarrow> []) @
     (case Month d of Some m \<Rightarrow> [m] | None \<Rightarrow> []) @
     (case Day d of Some dd \<Rightarrow> [dd] | None \<Rightarrow> [])"

text \<open>The \<^verbatim>\<open>doi\<close> entry is overwritten by every later identifier of type \<^verbatim>\<open>doi\<close>.\<close>

definition article_doi :: "(string option \<times> string) list \<Rightarrow> string option" where
  "article_doi ids =
     foldl (\<lambda>found article_id. if fst article_id = Some ''doi'' then Some (snd article_id) else found)
       None ids"

definition extract_article :: "pubmed_article \<Rightarrow> article_data" where
  "extract_article article =
     \<lparr>pmid = PMID article, title = ArticleTitle article, abstract = AbstractText article,
      authors = article_authors article,
      publication_date = (case PubDate article of
                            None \<Rightarrow> None
                          | Some d \<Rightarrow> Some (py_join ''-'' (date_parts d))),
      journal = (case Journal article of None \<Rightarrow> None | Some t \<Rightarrow> t),
      doi = (case ArticleIdList article of None \<Rightarrow> None | Some ids \<Rightarrow> article_doi ids),
      authors_str = None\<rparr>"

definition extract_articles :: "pubmed_article list \<Rightarrow> article_data list" where
  "extract_articles soup = map extract_article soup"

text \<open>
  The loop of \<^verbatim>\<open>PubMedCollector.to_dataframe\<close>: every article with an \<^verbatim>\<open>authors\<close> key,
  which the search sets on each one, gets \<^verbatim>\<open>authors_str\<close>.
\<close>

definition to_dataframe :: "article_data list \<Rightarrow> article_data list" where
  "to_dataframe articles =
     map (\<lambda>article. article\<lparr>authors_str := Some (py_join '', '' (authors article))\<rparr>) articles"

section \<open>Vocabulary of the statements\<close>

text \<open>
  A part of a date object as the formatter reads it: the \<^verbatim>\<open>value\<close> of the dict stored
  under the key, \<^verbatim>\<open>None\<close> when the key is absent, null, empty or not a dict, or when the
  dict has no \<^verbatim>\<open>value\<close>.
\<close>

definition date_part :: "(string \<times> json) list \<Rightarrow> string \<Rightarrow> json" where
  "date_part kvs key =
     (case map_of kvs key of
        Some (JObj part) \<Rightarrow> (case map_of part ''value'' of Some v \<Rightarrow> v | None \<Rightarrow> JNull)
      | _ \<Rightarrow> JNull)"

text \<open>The two requests the client makes, and the identifiers a list of hits carries.\<close>

definition search_request :: "orcid_client \<Rightarrow> string \<Rightarrow> int \<Rightarrow> request" where
  "search_request client query max_results =
     Get (base_url client @ ''/search'') [(''q'', JStr query), (''rows'', JInt max_results)]"

definition profile_request :: "orcid_client \<Rightarrow> json \<Rightarrow> request" where
  "profile_request client orcid_id = Get (base_url client @ ''/'' @ py_str orcid_id) []"

definition identified_hits :: "json list \<Rightarrow> (json \<times> json) list" where
  "identified_hits hits =
     concat (map (\<lambda>hit. case hit_id hit of
                          Inr v \<Rightarrow> if truthy v then [(hit, v)] else []
                        | Inl e \<Rightarrow> []) hits)"

definition hit_ids :: "json list \<Rightarrow> json list" where
  "hit_ids hits =
     concat (map (\<lambda>hit. case hit_id hit of Inr v \<Rightarrow> if truthy v then [v] else [] | Inl e \<Rightarrow> []) hits)"

text \<open>
  Fetching the records of a list of identifiers one after the other: each identifier is
  fetched once, from the world the fetch before it left; a fetch that returns a record
  contributes it, with the identifier stored under \<^verbatim>\<open>orcid_id\<close> and \<^verbatim>\<open>orcid\<close>; a fetch
  that returns nothing contributes nothing.
\<close>

definition enriched :: "json \<Rightarrow> exn + pydict option \<Rightarrow> pydict list" where
  "enriched orcid_id fetched =
     (case fetched of
        Inr (Some info) \<Rightarrow>
          if info \<noteq> [] then
            [dict_set (dict_set info ''orcid_id'' (Json orcid_id)) ''orcid'' (Json orcid_id)]
          else []
      | _ \<Rightarrow> [])"

fun fetch_each ::
  "orcid_client \<Rightarrow> 'r network \<Rightarrow> json list \<Rightarrow> 'r world \<Rightarrow> pydict list \<times> 'r world" where
  "fetch_each client net [] w = ([], w)"
| "fetch_each client net (orcid_id # rest) w =
     (case get_researcher_info client net orcid_id w of
        (fetched, w1) \<Rightarrow>
          (case fetch_each client net rest w1 of
             (records, w2) \<Rightarrow> (enriched orcid_id fetched @ records, w2)))"

text \<open>
  The mappings of a local record: the gateway filters by dataset and by identifier only, so
  a caller picks the record's rows out of the dataset's.
\<close>

definition mappings_for :: "database \<Rightarrow> int \<Rightarrow> string \<Rightarrow> mapping_row list" where
  "mappings_for db ds rec_id =
     filter (\<lambda>r. record_id r = rec_id) (get_orcid_mappings None db (Some ds) None)"

section \<open>Concrete inputs\<close>

text \<open>An operation that counts its calls and raises every time.\<close>

definition always_failing :: "nat \<Rightarrow> (exn + unit) \<times> nat" where
  "always_failing n = (Inl (HTTPError 503), Suc n)"


text \<open>The public registry, an empty world, and four networks.\<close>

definition registry :: orcid_client where
  "registry = \<lparr>base_url = ''https://pub.orcid.org/v3.0'', debug_mode = False\<rparr>"

definition w0 :: "unit world" where
  "w0 = \<lparr>remote = (), requests = []\<rparr>"


text \<open>Every search is answered with a well-formed response without hits.\<close>

definition no_hits_net :: "unit network" where
  "no_hits_net req r = (Inr (JObj [(''result'', JArr [])]), r)"

definition carberry_hit :: json where
  "carberry_hit =
     JObj [(''orcid-identifier'', JObj [(''path'', JStr ''0000-0002-1825-0097'')]),
           (''display-name'', JStr ''Josiah Carberry''),
           (''affiliation-path'', JObj [(''affiliation-name'', JStr ''Brown University'')])]"

definition carberry_record :: json where
  "carberry_record =
     JObj [(''person'',
            JObj [(''name'', JObj [(''given-names'', JObj [(''value'', JStr ''Josiah'')]),
                                   (''family-name'', JObj [(''value'', JStr ''Carberry'')])]),
                  (''keywords'', JObj [(''keyword'', JArr [JObj [(''content'', JStr ''psychoceramics'')]])])]),
           (''activities-summary'',
            JObj [(''employments'',
                   JObj [(''employment-summary'',
                          JArr [JObj [(''organization'', JObj [(''name'', JStr ''Brown University'')])]])])])]"

text \<open>A search has the one hit above; the record of any identifier is the one above.\<close>

definition one_hit_net :: "unit network" where
  "one_hit_net req r =
     (case req of Get url params \<Rightarrow>
        if url = ''https://pub.orcid.org/v3.0/search''
        then (Inr (JObj [(''result'', JArr [carberry_hit])]), r)
        else (Inr carberry_record, r))"

definition carberry_profile :: pydict where
  "carberry_profile =
     [(''orcid_id'', Json (JStr ''0000-0002-1825-0097'')),
      (''name'', Json (JStr ''Josiah Carberry'')),
      (''given_name'', Json (JStr ''Josiah'')),
      (''family_name'', Json (JStr ''Carberry'')),
      (''keywords'', Json (JArr [JStr ''psychoceramics''])),
      (''employments'',
       Json (JArr [JObj [(''organization'', JStr ''Brown University''), (''department'', JStr []),
                         (''role'', JStr []),
                         (''location'', JObj [(''city'', JStr []), (''region'', JStr []),
                                              (''country'', JStr [])])]])),
      (''institution'', Json (JStr ''Brown University'')),
      (''orcid'', Json (JStr ''0000-0002-1825-0097''))]"

definition carberry_stub :: pydict where
  "carberry_stub =
     [(''orcid_id'', Json (JStr ''0000-0002-1825-0097'')),
      (''orcid'', Json (JStr ''0000-0002-1825-0097'')),
      (''name'', Json (JStr ''Josiah Carberry'')),
      (''display-name'', Json (JStr ''Josiah Carberry'')),
      (''institution'', Json (JStr ''Brown University'')),
      (''given_name'', Json (JStr ''Josiah'')),
      (''family_name'', Json (JStr ''Carberry''))]"

text \<open>Two candidates as a search returns them.\<close>

definition lund_candidate :: pydict where
  "lund_candidate =
     [(''orcid_id'', Json (JStr ''0000-0001-5109-3700'')),
      (''name'', Json (JStr ''Anna Berg'')),
      (''institution'', Json (JStr ''Lund University Lund'')),
      (''orcid'', Json (JStr ''0000-0001-5109-3700''))]"

text \<open>
  Two records, the profiles made of them, and a network on which a search has two hits:
  first the second record's, then the first record's.
\<close>

definition smith_record :: json where
  "smith_record =
     JObj [(''person'',
            JObj [(''name'', JObj [(''given-names'', JObj [(''value'', JStr ''John'')]),
                                   (''family-name'', JObj [(''value'', JStr ''Smith'')])]),
                  (''keywords'',
                   JObj [(''keyword'', JArr [JObj [(''content'', JStr ''Physics'')],
                                             JObj [(''content'', JStr ''Quantum'')],
                                             JObj [(''content'', JStr ''Optics'')]])])]),
           (''activities-summary'',
            JObj [(''employments'',
                   JObj [(''employment-summary'',
                          JArr [JObj [(''organization'', JObj [(''name'', JStr ''MIT'')])]])])])]"

definition jon_record :: json where
  "jon_record =
     JObj [(''person'',
            JObj [(''name'', JObj [(''given-names'', JObj [(''value'', JStr ''Jon'')]),
                                   (''family-name'', JObj [(''value'', JStr ''Smith'')])])]),
           (''activities-summary'',
            JObj [(''employments'',
                   JObj [(''employment-summary'',
                          JArr [JObj [(''organization'', JObj [(''name'', JStr ''MIT'')])]])])])]"

definition smith_profile :: pydict where
  "smith_profile =
     [(''orcid_id'', Json (JStr ''0000-0002-1694-233X'')),
      (''name'', Json (JStr ''John Smith'')),
      (''given_name'', Json (JStr ''John'')),
      (''family_name'', Json (JStr ''Smith'')),
      (''keywords'', Json (JArr [JStr ''Physics'', JStr ''Quantum'', JStr ''Optics''])),
      (''employments'',
       Json (JArr [JObj [(''organization'', JStr ''MIT''), (''department'', JStr []),
                         (''role'', JStr []),
                         (''location'', JObj [(''city'', JStr []), (''region'', JStr []),
                                              (''country'', JStr [])])]])),
      (''institution'', Json (JStr ''MIT'')),
      (''orcid'', Json (JStr ''0000-0002-1694-233X''))]"

definition jon_profile :: pydict where
  "jon_profile =
     [(''orcid_id'', Json (JStr ''0000-0001-5109-3700'')),
      (''name'', Json (JStr ''Jon Smith'')),
      (''given_name'', Json (JStr ''Jon'')),
      (''family_name'', Json (JStr ''Smith'')),
      (''employments'',
       Json (JArr [JObj [(''organization'', JStr ''MIT''), (''department'', JStr []),
                         (''role'', JStr []),
                         (''location'', JObj [(''city'', JStr []), (''region'', JStr []),
                                              (''country'', JStr [])])]])),
      (''institution'', Json (JStr ''MIT'')),
      (''orcid'', Json (JStr ''0000-0001-5109-3700''))]"

definition two_hits_net :: "unit network" where
  "two_hits_net req r =
     (case req of Get url params \<Rightarrow>
        if url = ''https://pub.orcid.org/v3.0/search''
        then (Inr (JObj [(''result'',
                          JArr [JObj [(''orcid-identifier'', JObj [(''path'', JStr ''0000-0001-5109-3700'')])],
                                JObj [(''orcid-identifier'', JObj [(''path'', JStr ''0000-0002-1694-233X'')])]])]),
              r)
        else if url = ''https://pub.orcid.org/v3.0/0000-0002-1694-233X'' then (Inr smith_record, r)
        else (Inr jon_record, r))"

text \<open>
  An engine whose three conversions are never reached by the inputs below, a database with
  one dataset and no mappings, and a fetched record with two authors.
\<close>

definition sqlite0 :: sqlite where
  "sqlite0 = \<lparr>int_to_real = of_int, real_to_text = (\<lambda>q. []), text_to_number = (\<lambda>s. None)\<rparr>"

definition db0 :: database where
  "db0 = \<lparr>datasets = [\<lparr>ds_id = 1, ds_name = ''researchers'', orcid_linked = False\<rparr>],
          orcid_mappings = [], mapping_seq = 0\<rparr>"

definition two_author_article :: pubmed_article where
  "two_author_article =
     \<lparr>PMID = Some ''31452104'', ArticleTitle = Some ''Cracked pots'', AbstractText = None,
      AuthorList = Some [\<lparr>LastName = Some ''Smith'', ForeName = Some ''John''\<rparr>,
                         \<lparr>LastName = Some ''Curie'', ForeName = Some ''Marie''\<rparr>],
      PubDate = Some \<lparr>Year = Some ''2019'', Month = Some ''Aug'', Day = None\<rparr>,
      Journal = Some (Some ''Ceramics''), ArticleIdList = None\<rparr>"
section \<open>Retry: properties\<close>

lemma retry_loop_fail_more:
  "func w = (Inl e, w') \<Longrightarrow> time_sleep mdelay = None \<Longrightarrow> mtries > 1 \<Longrightarrow>
   retry_loop func backoff mtries mdelay w evs =
     retry_loop func backoff (mtries - 1) (mdelay * backoff) w' (evs @ [Invoked, Slept mdelay])"
  by (subst retry_loop.simps) simp

lemma retry_loop_fail_last:
  "func w = (Inl e, w') \<Longrightarrow> time_sleep mdelay = None \<Longrightarrow>
   retry_loop func backoff 1 mdelay w evs = (Inl e, w', evs @ [Invoked, Slept mdelay])"
  by (subst retry_loop.simps) simp

lemma retry_loop_success:
  "func w = (Inr v, w') \<Longrightarrow> mtries > 0 \<Longrightarrow>
   retry_loop func backoff mtries mdelay w evs = (Inr v, w', evs @ [Invoked])"
  by (subst retry_loop.simps) simp

lemma retry_success:
  "func w = (Inr v, w') \<Longrightarrow> tries > 0 \<Longrightarrow> retry tries delay backoff func w = (Inr v, w')"
  by (simp add: retry_def retry_trace_def retry_loop_success)

lemma time_sleep_returns: "time_sleep secs = None \<longleftrightarrow> 0 \<le> secs \<and> secs \<le> 9223372036"
  by (simp add: time_sleep_def)

text \<open>
  C9. A function wrapped for 3 tries is called a first time; when that call raises, a
  second time from the world the first call left; when that raises too, a third time.
  When all three calls raise and the three sleeps (of \<open>delay\<close>, \<open>delay * backoff\<close> and
  \<open>delay * backoff * backoff\<close> seconds, each a length \<^verbatim>\<open>time.sleep\<close> accepts) return,
  the wrapper has called the function exactly three times, has slept these three lengths
  in this order, one after each failure, and raises the exception of the third call.
\<close>

theorem retry_three_tries_exhausted:
  assumes c1: "func w = (Inl e1, w1)"
    and c2: "func w1 = (Inl e2, w2)"
    and c3: "func w2 = (Inl e3, w3)"
    and d1: "0 \<le> delay \<and> delay \<le> 9223372036"
    and d2: "0 \<le> delay * backoff \<and> delay * backoff \<le> 9223372036"
    and d3: "0 \<le> delay * backoff * backoff \<and> delay * backoff * backoff \<le> 9223372036"
  shows "retry_trace 3 delay backoff func w =
           (Inl e3, w3,
            [Invoked, Slept delay, Invoked, Slept (delay * backoff),
             Invoked, Slept (delay * backoff * backoff)]) \<and>
         retry 3 delay backoff func w = (Inl e3, w3)"
proof -
  have t1: "time_sleep delay = None" using d1 by (simp add: time_sleep_returns)
  have t2: "time_sleep (delay * backoff) = None" using d2 by (simp add: time_sleep_returns)
  have t3: "time_sleep (delay * backoff * backoff) = None"
    using d3 by (simp add: time_sleep_returns)
  have s1: "retry_loop func backoff 3 delay w [] =
              retry_loop func backoff 2 (delay * backoff) w1 [Invoked, Slept delay]"
    using retry_loop_fail_more [where func = func and w = w and mtries = 3 and evs = "[]"] c1 t1
    by simp
  have s2: "retry_loop func backoff 2 (delay * backoff) w1 [Invoked, Slept delay] =
              retry_loop func backoff 1 (delay * backoff * backoff) w2
                [Invoked, Slept delay, Invoked, Slept (delay * backoff)]"
    using retry_loop_fail_more [where func = func and w = w1 and mtries = 2
            and evs = "[Invoked, Slept delay]"] c2 t2
    by simp
  have s3: "retry_loop func backoff 1 (delay * backoff * backoff) w2
                [Invoked, Slept delay, Invoked, Slept (delay * backoff)] =
              (Inl e3, w3,
               [Invoked, Slept delay, Invoked, Slept (delay * backoff),
                Invoked, Slept (delay * backoff * backoff)])"
    using retry_loop_fail_last [where func = func and w = w2] c3 t3 by simp
  have t: "retry_trace 3 delay backoff func w =
             (Inl e3, w3,
              [Invoked, Slept delay, Invoked, Slept (delay * backoff),
               Invoked, Slept (delay * backoff * backoff)])"
    by (simp add: retry_trace_def s1 s2 s3)
  then show ?thesis by (simp add: retry_def)
qed

theorem retry_three_tries_exhausted_witness:
  "always_failing 0 = (Inl (HTTPError 503), 1) \<and>
   always_failing 1 = (Inl (HTTPError 503), 2) \<and>
   always_failing 2 = (Inl (HTTPError 503), 3) \<and>
   retry_trace 3 1 2 always_failing 0 =
     (Inl (HTTPError 503), 3, [Invoked, Slept 1, Invoked, Slept 2, Invoked, Slept 4]) \<and>
   retry 3 1 2 always_failing 0 = (Inl (HTTPError 503), 3)"
proof -
  have c: "always_failing 0 = (Inl (HTTPError 503), 1)"
      "always_failing 1 = (Inl (HTTPError 503), 2)"
      "always_failing 2 = (Inl (HTTPError 503), 3)"
    by (simp_all add: always_failing_def)
  have d: "(0::int) \<le> 1 \<and> (1::int) \<le> 9223372036"
      "(0::int) \<le> 1 * 2 \<and> (1::int) * 2 \<le> 9223372036"
      "(0::int) \<le> 1 * 2 * 2 \<and> (1::int) * 2 * 2 \<le> 9223372036"
    by simp_all
  from retry_three_tries_exhausted [OF c d] c show ?thesis by simp
qed

text \<open>
  With a negative delay the first sleep raises: the function is called once and the
  wrapper raises \<^verbatim>\<open>ValueError\<close>.
\<close>

lemma retry_negative_delay:
  "retry_trace 3 (- 1) 2 always_failing 0 = (Inl ValueError, 1, [Invoked])"
  by (simp add: retry_trace_def retry_loop.simps always_failing_def time_sleep_def)

section \<open>Partial dates: properties\<close>

lemma str_nat_nonempty: "str_nat n \<noteq> []"
  by (subst str_nat.simps) simp

lemma str_int_nonempty: "str_int i \<noteq> []"
  by (simp add: str_int_def str_nat_nonempty)

lemma py_str_truthy_nonempty: "truthy v \<Longrightarrow> py_str v \<noteq> []"
  by (cases v) (auto simp: str_int_nonempty)

lemma format_date_nonempty: "format_date d \<noteq> Inr (Some [])"
proof (cases d)
  case (JObj kvs)
  then show ?thesis
    by (simp add: format_date_def exn_bind_def get_or_def Let_def py_str_truthy_nonempty)
qed (simp_all add: format_date_def exn_bind_def get_or_def)

lemma value_if_dict_part:
  "value_if_dict (py_or (case map_of kvs key of Some v \<Rightarrow> v | None \<Rightarrow> JObj []) (JObj []))
     = date_part kvs key"
proof (cases "map_of kvs key")
  case None
  then show ?thesis by (simp add: date_part_def value_if_dict_def py_or_def)
next
  case (Some v)
  then show ?thesis
    by (cases v) (simp_all add: date_part_def value_if_dict_def py_or_def)
qed

lemma format_date_dict:
  "format_date (JObj kvs) =
     Inr (if kvs \<noteq> [] \<and> truthy (date_part kvs ''year'') then
            Some (py_str (date_part kvs ''year'') @
                  (if truthy (date_part kvs ''month'') then
                     ''-'' @ py_str (date_part kvs ''month'') @
                     (if truthy (date_part kvs ''day'') then ''-'' @ py_str (date_part kvs ''day'')
                      else [])
                   else []))
          else None)"
  by (simp add: format_date_def exn_bind_def get_or_def Let_def value_if_dict_part)

lemma format_date_not_dict:
  "\<not> is_dict date_obj \<Longrightarrow>
   format_date date_obj = (if truthy date_obj then Inl AttributeError else Inr None)"
  by (cases date_obj) (simp_all add: format_date_def exn_bind_def get_or_def)

lemma date_part_delete:
  "date_part (AList.delete k kvs) key = (if key = k then JNull else date_part kvs key)"
  by (simp add: date_part_def delete_conv')

lemma date_part_Nil: "date_part [] key = JNull"
  by (simp add: date_part_def)

lemma format_date_day_needs_month:
  assumes "\<not> truthy (date_part kvs ''month'')"
  shows "format_date (JObj kvs) = format_date (JObj (AList.delete ''day'' kvs))"
proof (cases "AList.delete ''day'' kvs = []")
  case True
  then have "date_part (AList.delete ''day'' kvs) ''year'' = JNull" by (simp add: date_part_Nil)
  then have "date_part kvs ''year'' = JNull" by (simp add: date_part_delete)
  with True show ?thesis by (simp add: format_date_dict date_part_Nil)
next
  case False
  then have "kvs \<noteq> []" by auto
  with False assms show ?thesis by (simp add: format_date_dict date_part_delete)
qed

text \<open>
  C8. A date object of the registry holds each part as \<^verbatim>\<open>{"value": v}\<close>. The formatter
  gives \<open>2020\<close>, \<open>2020-5\<close> and \<open>2020-5-1\<close> for year 2020, month 5 and day 1 at the three
  precisions, and \<^verbatim>\<open>None\<close> for an empty date object and for null. No date object is
  formatted as the empty string. For every dict: the output is \<^verbatim>\<open>None\<close> without a year,
  and otherwise the year, followed by the month when there is one, followed by the day
  only when there are both a month and a day; so when the month is missing in any way
  (no key, null, empty, no value, a false value), the day has no effect on the output.
  A date object that is not a dict gives \<^verbatim>\<open>None\<close> when it is false and raises otherwise.
\<close>

theorem format_date_partial_dates:
  "format_date (JObj [(''year'', JObj [(''value'', JInt 2020)])]) = Inr (Some ''2020'') \<and>
   format_date (JObj [(''year'', JObj [(''value'', JInt 2020)]),
                      (''month'', JObj [(''value'', JInt 5)])]) = Inr (Some ''2020-5'') \<and>
   format_date (JObj [(''year'', JObj [(''value'', JInt 2020)]),
                      (''month'', JObj [(''value'', JInt 5)]),
                      (''day'', JObj [(''value'', JInt 1)])]) = Inr (Some ''2020-5-1'') \<and>
   format_date (JObj []) = Inr None \<and>
   format_date JNull = Inr None \<and>
   format_date date_obj \<noteq> Inr (Some []) \<and>
   format_date (JObj kvs) =
     Inr (if kvs \<noteq> [] \<and> truthy (date_part kvs ''year'') then
            Some (py_str (date_part kvs ''year'') @
                  (if truthy (date_part kvs ''month'') then
                     ''-'' @ py_str (date_part kvs ''month'') @
                     (if truthy (date_part kvs ''day'') then ''-'' @ py_str (date_part kvs ''day'')
                      else [])
                   else []))
          else None) \<and>
   (\<not> truthy (date_part kvs ''month'') \<longrightarrow>
      format_date (JObj kvs) = format_date (JObj (AList.delete ''day'' kvs))) \<and>
   (\<not> is_dict date_obj \<longrightarrow>
      format_date date_obj = (if truthy date_obj then Inl AttributeError else Inr None))"
proof -
  have ex: "format_date (JObj [(''year'', JObj [(''value'', JInt 2020)])]) = Inr (Some ''2020'')"
    "format_date (JObj [(''year'', JObj [(''value'', JInt 2020)]),
                      (''month'', JObj [(''value'', JInt 5)])]) = Inr (Some ''2020-5'')"
    "format_date (JObj [(''year'', JObj [(''value'', JInt 2020)]),
                      (''month'', JObj [(''value'', JInt 5)]),
                      (''day'', JObj [(''value'', JInt 1)])]) = Inr (Some ''2020-5-1'')"
    by code_simp+
  have em: "format_date (JObj []) = Inr None" "format_date JNull = Inr None"
    by (simp_all add: format_date_def)
  show ?thesis
    using ex em format_date_nonempty [of date_obj] format_date_dict [of kvs]
      format_date_day_needs_month [of kvs] format_date_not_dict [of date_obj]
    by blast
qed

theorem format_date_partial_dates_witness:
  "\<not> truthy (date_part [(''year'', JObj [(''value'', JInt 2020)]), (''month'', JNull),
                        (''day'', JObj [(''value'', JInt 1)])] ''month'') \<and>
   format_date (JObj [(''year'', JObj [(''value'', JInt 2020)]), (''month'', JNull),
                      (''day'', JObj [(''value'', JInt 1)])]) = Inr (Some ''2020'') \<and>
   \<not> is_dict (JStr ''2020-05'') \<and>
   format_date (JStr ''2020-05'') = Inl AttributeError"
proof -
  let ?K = "[(''year'', JObj [(''value'', JInt 2020)]), (''month'', JNull),
             (''day'', JObj [(''value'', JInt 1)])]"
  let ?D = "JStr ''2020-05''"
  have a: "\<not> truthy (date_part ?K ''month'')"
    by (simp add: date_part_def)
  have b: "format_date (JObj (AList.delete ''day'' ?K)) = Inr (Some ''2020'')"
    by code_simp
  have c: "\<not> is_dict ?D" "truthy ?D" by simp_all
  have "(\<not> truthy (date_part ?K ''month'') \<longrightarrow>
           format_date (JObj ?K) = format_date (JObj (AList.delete ''day'' ?K))) \<and>
        (\<not> is_dict ?D \<longrightarrow>
           format_date ?D = (if truthy ?D then Inl AttributeError else Inr None))"
    using format_date_partial_dates [of ?D ?K] by blast
  with a c have "format_date (JObj ?K) = format_date (JObj (AList.delete ''day'' ?K))"
    and "format_date ?D = Inl AttributeError"
    by simp_all
  with a b c(1) show ?thesis by (simp only: simp_thms)
qed

section \<open>The registry client: properties\<close>

lemma get_researcher_info_body_returns:
  "\<exists>res w'. get_researcher_info_body client net orcid_id w = (Inr res, w')"
  by (auto simp: get_researcher_info_body_def split: prod.splits sum.splits)

lemma get_researcher_info_eq_body:
  "get_researcher_info client net orcid_id w = get_researcher_info_body client net orcid_id w"
proof -
  obtain res w' where b: "get_researcher_info_body client net orcid_id w = (Inr res, w')"
    using get_researcher_info_body_returns by blast
  show ?thesis unfolding get_researcher_info_def
    using retry_success [where func = "get_researcher_info_body client net orcid_id", OF b, of 3 1 2] b
    by simp
qed

lemma search_researchers_body_returns:
  "\<exists>res w'. search_researchers_body client net query max_results w = (Inr res, w')"
  by (auto simp: search_researchers_body_def split: prod.splits sum.splits)

lemma search_researchers_eq_body:
  "search_researchers client net query max_results w =
     search_researchers_body client net query max_results w"
proof -
  obtain res w' where b: "search_researchers_body client net query max_results w = (Inr res, w')"
    using search_researchers_body_returns by blast
  show ?thesis unfolding search_researchers_def
    using retry_success [where func = "search_researchers_body client net query max_results", OF b, of 3 1 2] b
    by simp
qed


lemma dict_has_set: "dict_has (dict_set d k v) k' = (k' = k \<or> dict_has d k')"
  by (simp add: dict_has_def dict_set_def update_conv')

lemma exn_bind_Inr: "exn_bind m f = Inr r \<Longrightarrow> \<exists>v. m = Inr v \<and> f v = Inr r"
  by (cases m) (simp_all add: exn_bind_def)

lemma set_name_keys:
  "set_name person r = Inr r' \<Longrightarrow> dict_has r' ''match_confidence'' = dict_has r ''match_confidence''"
  unfolding set_name_def
  by (auto dest!: exn_bind_Inr simp: dict_has_set Let_def split: if_splits)

lemma set_biography_keys:
  "set_biography person r = Inr r' \<Longrightarrow> dict_has r' ''match_confidence'' = dict_has r ''match_confidence''"
  unfolding set_biography_def
  by (auto dest!: exn_bind_Inr simp: dict_has_set Let_def split: if_splits)

lemma set_keywords_keys:
  "set_keywords person r = Inr r' \<Longrightarrow> dict_has r' ''match_confidence'' = dict_has r ''match_confidence''"
  unfolding set_keywords_def
  by (auto dest!: exn_bind_Inr simp: dict_has_set Let_def split: if_splits)

lemma set_other_names_keys:
  "set_other_names person r = Inr r' \<Longrightarrow> dict_has r' ''match_confidence'' = dict_has r ''match_confidence''"
  unfolding set_other_names_def
  by (auto dest!: exn_bind_Inr simp: dict_has_set Let_def split: if_splits)

lemma set_contact_keys:
  "set_contact person r = Inr r' \<Longrightarrow> dict_has r' ''match_confidence'' = dict_has r ''match_confidence''"
  unfolding set_contact_def
  by (auto dest!: exn_bind_Inr simp: dict_has_set Let_def split: if_splits)

lemma set_employments_keys:
  "set_employments person r = Inr r' \<Longrightarrow> dict_has r' ''match_confidence'' = dict_has r ''match_confidence''"
  unfolding set_employments_def
  by (auto dest!: exn_bind_Inr simp: dict_has_set Let_def split: if_splits list.splits)

lemma set_publication_examples_keys:
  "set_publication_examples person r = Inr r' \<Longrightarrow> dict_has r' ''match_confidence'' = dict_has r ''match_confidence''"
  unfolding set_publication_examples_def
  by (auto dest!: exn_bind_Inr simp: dict_has_set Let_def split: if_splits)

lemma parse_profile_keys:
  assumes "parse_profile orcid_id data = Inr r"
  shows "\<not> dict_has r ''match_confidence''"
proof -
  from assms obtain person r1 r2 r3 r4 r5 activities r6 where
    s: "set_name person [(''orcid_id'', Json orcid_id)] = Inr r1"
       "set_biography person r1 = Inr r2"
       "set_keywords person r2 = Inr r3"
       "set_other_names person r3 = Inr r4"
       "set_contact person r4 = Inr r5"
       "set_employments activities r5 = Inr r6"
       "set_publication_examples activities r6 = Inr r"
    unfolding parse_profile_def by (blast dest!: exn_bind_Inr)
  have "\<not> dict_has [(''orcid_id'', Json orcid_id)] ''match_confidence''"
    by (simp add: dict_has_def)
  with s show ?thesis
    by (simp add: set_name_keys set_biography_keys set_keywords_keys set_other_names_keys
          set_contact_keys set_employments_keys set_publication_examples_keys)
qed


lemma dict_has_Nil: "dict_has [] k = False"
  by (simp add: dict_has_def)

lemma dict_has_Cons: "dict_has (kv # d) k = (fst kv = k \<or> dict_has d k)"
  by (cases kv) (simp add: dict_has_def)

lemma stub_profile_keys:
  "stub_profile hit orcid_id = Inr r \<Longrightarrow> \<not> dict_has r ''match_confidence''"
  unfolding stub_profile_def
  by (auto dest!: exn_bind_Inr simp: dict_has_set dict_has_Cons dict_has_Nil Let_def
           split: if_splits list.splits)

lemma get_researcher_info_keys:
  assumes "get_researcher_info client net orcid_id w = (Inr (Some r), w')"
  shows "\<not> dict_has r ''match_confidence''"
  using assms unfolding get_researcher_info_eq_body get_researcher_info_body_def
  by (auto simp: debug_profile_def dict_has_Cons dict_has_Nil parse_profile_keys
           split: if_splits prod.splits sum.splits)

lemma search_loop_keys:
  "search_loop client net max_results hits results w = (Inr results', w') \<Longrightarrow>
   \<forall>r \<in> set results. \<not> dict_has r ''match_confidence'' \<Longrightarrow>
   \<forall>r \<in> set results'. \<not> dict_has r ''match_confidence''"
proof (induction hits arbitrary: results w)
  case Nil
  then show ?case by simp
next
  case (Cons hit rest)
  show ?case
  proof (cases "hit_id hit")
    case (Inl e)
    with Cons.prems show ?thesis by simp
  next
    case (Inr orcid_id)
    show ?thesis
    proof (cases "truthy orcid_id")
      case False
      with Inr Cons.prems Cons.IH show ?thesis by simp
    next
      case True
      show ?thesis
      proof (cases "max_results > 5")
        case big: True
        show ?thesis
        proof (cases "stub_profile hit orcid_id")
          case (Inl e)
          with Inr True big Cons.prems show ?thesis by simp
        next
          case stub: (Inr info)
          have "\<forall>r \<in> set (results @ [info]). \<not> dict_has r ''match_confidence''"
            using Cons.prems(2) stub_profile_keys [OF stub] by simp
          moreover have "search_loop client net max_results rest (results @ [info]) w = (Inr results', w')"
            using Inr True big stub Cons.prems(1) by simp
          ultimately show ?thesis using Cons.IH by blast
        qed
      next
        case small: False
        obtain res w1 where g: "get_researcher_info client net orcid_id w = (res, w1)"
          by (cases "get_researcher_info client net orcid_id w")
        show ?thesis
        proof (cases res)
          case (Inl e)
          with Inr True small g Cons.prems show ?thesis by simp
        next
          case got: (Inr found)
          show ?thesis
          proof (cases found)
            case None
            with Inr True small g got Cons.prems(1)
            have "search_loop client net max_results rest results w1 = (Inr results', w')" by simp
            with Cons.IH Cons.prems(2) show ?thesis by blast
          next
            case (Some info)
            show ?thesis
            proof (cases "info = []")
              case True
              with Inr \<open>truthy orcid_id\<close> small g got Some Cons.prems(1)
              have "search_loop client net max_results rest results w1 = (Inr results', w')" by simp
              with Cons.IH Cons.prems(2) show ?thesis by blast
            next
              case False
              let ?info = "dict_set (dict_set info ''orcid_id'' (Json orcid_id)) ''orcid'' (Json orcid_id)"
              have "\<not> dict_has info ''match_confidence''"
                using get_researcher_info_keys g got Some by blast
              then have "\<forall>r \<in> set (results @ [?info]). \<not> dict_has r ''match_confidence''"
                using Cons.prems(2) by (simp add: dict_has_set)
              moreover have "search_loop client net max_results rest (results @ [?info]) w1 = (Inr results', w')"
                using Inr \<open>truthy orcid_id\<close> small g got Some False Cons.prems(1) by simp
              ultimately show ?thesis using Cons.IH by blast
            qed
          qed
        qed
      qed
    qed
  qed
qed

lemma search_researchers_keys:
  assumes "search_researchers client net query max_results w = (Inr results, w')"
  shows "\<forall>r \<in> set results. \<not> dict_has r ''match_confidence''"
proof -
  from assms have b: "search_researchers_body client net query max_results w = (Inr results, w')"
    by (simp add: search_researchers_eq_body)
  show ?thesis
  proof (cases "search_researchers_try client net query max_results w")
    case (Pair res w1)
    show ?thesis
    proof (cases res)
      case (Inl e)
      with Pair b show ?thesis by (simp add: search_researchers_body_def)
    next
      case (Inr rs)
      with Pair b have t: "search_researchers_try client net query max_results w = (Inr results, w')"
        by (simp add: search_researchers_body_def)
      then show ?thesis
        unfolding search_researchers_try_def
        by (auto split: if_splits prod.splits sum.splits dest: search_loop_keys)
    qed
  qed
qed


lemma get_researcher_info_requests:
  assumes "\<not> debug_mode client"
  shows "requests (snd (get_researcher_info client net orcid_id w)) =
           requests w @ [profile_request client orcid_id]"
  using assms unfolding get_researcher_info_eq_body get_researcher_info_body_def
  by (auto simp: http_get_json_def profile_request_def split: prod.splits sum.splits)

lemma search_loop_big:
  "max_results > 5 \<Longrightarrow> snd (search_loop client net max_results hits results w) = w"
  by (induction hits arbitrary: results) (auto split: sum.splits)

lemma search_loop_small_requests:
  "\<not> debug_mode client \<Longrightarrow> \<not> max_results > 5 \<Longrightarrow>
   search_loop client net max_results hits results w = (Inr results', w') \<Longrightarrow>
   requests w' = requests w @ map (profile_request client) (hit_ids hits)"
proof (induction hits arbitrary: results w)
  case Nil
  then show ?case by (simp add: hit_ids_def)
next
  case (Cons hit rest)
  show ?case
  proof (cases "hit_id hit")
    case (Inl e)
    with Cons.prems show ?thesis by simp
  next
    case (Inr orcid_id)
    show ?thesis
    proof (cases "truthy orcid_id")
      case False
      with Inr Cons.prems have "search_loop client net max_results rest results w = (Inr results', w')"
        by simp
      from Cons.IH [OF Cons.prems(1,2) this] Inr False show ?thesis by (simp add: hit_ids_def)
    next
      case True
      obtain res w1 where g: "get_researcher_info client net orcid_id w = (res, w1)"
        by (cases "get_researcher_info client net orcid_id w")
      have rq: "requests w1 = requests w @ [profile_request client orcid_id]"
        using get_researcher_info_requests [OF Cons.prems(1), of net orcid_id w] g by simp
      from Inr True g Cons.prems(2,3) obtain results1 where
        "search_loop client net max_results rest results1 w1 = (Inr results', w')"
        by (auto split: sum.splits option.splits if_splits)
      from Cons.IH [OF Cons.prems(1,2) this] rq Inr True show ?thesis by (simp add: hit_ids_def)
    qed
  qed
qed


lemma identified_hits_Cons:
  "identified_hits (hit # rest) =
     (case hit_id hit of Inr v \<Rightarrow> if truthy v then [(hit, v)] else [] | Inl e \<Rightarrow> []) @
     identified_hits rest"
  by (simp add: identified_hits_def)

lemma hit_ids_Cons:
  "hit_ids (hit # rest) =
     (case hit_id hit of Inr v \<Rightarrow> if truthy v then [v] else [] | Inl e \<Rightarrow> []) @ hit_ids rest"
  by (simp add: hit_ids_def)

lemma hit_ids_identified: "hit_ids hits = map snd (identified_hits hits)"
  by (induction hits) (auto simp: hit_ids_def identified_hits_def split: sum.splits)

lemma search_loop_big_exact:
  "max_results > 5 \<Longrightarrow> search_loop client net max_results hits results w = (Inr results', w') \<Longrightarrow>
   \<exists>stubs. results' = results @ stubs \<and>
     list_all2 (\<lambda>found r. stub_profile (fst found) (snd found) = Inr r) (identified_hits hits) stubs"
proof (induction hits arbitrary: results)
  case Nil
  then show ?case by (simp add: identified_hits_def)
next
  case (Cons hit rest)
  show ?case
  proof (cases "hit_id hit")
    case (Inl e)
    with Cons.prems show ?thesis by simp
  next
    case (Inr orcid_id)
    show ?thesis
    proof (cases "truthy orcid_id")
      case False
      with Inr Cons.prems have "search_loop client net max_results rest results w = (Inr results', w')"
        by simp
      from Cons.IH [OF Cons.prems(1) this] Inr False show ?thesis
        by (simp add: identified_hits_Cons)
    next
      case True
      show ?thesis
      proof (cases "stub_profile hit orcid_id")
        case (Inl e)
        with Inr True Cons.prems show ?thesis by simp
      next
        case stub: (Inr info)
        then have "search_loop client net max_results rest (results @ [info]) w = (Inr results', w')"
          using Inr True Cons.prems by simp
        from Cons.IH [OF Cons.prems(1) this] obtain stubs where
          s: "results' = (results @ [info]) @ stubs"
             "list_all2 (\<lambda>found r. stub_profile (fst found) (snd found) = Inr r)
                (identified_hits rest) stubs"
          by blast
        have "results' = results @ (info # stubs)" using s(1) by simp
        moreover have "list_all2 (\<lambda>found r. stub_profile (fst found) (snd found) = Inr r)
                (identified_hits (hit # rest)) (info # stubs)"
          using s(2) Inr True stub by (simp add: identified_hits_Cons)
        ultimately show ?thesis by blast
      qed
    qed
  qed
qed

lemma search_loop_small_exact:
  "\<not> max_results > 5 \<Longrightarrow>
   search_loop client net max_results hits results w = (Inr results', w') \<Longrightarrow>
   results' = results @ fst (fetch_each client net (hit_ids hits) w) \<and>
   w' = snd (fetch_each client net (hit_ids hits) w)"
proof (induction hits arbitrary: results w)
  case Nil
  then show ?case by (simp add: hit_ids_def)
next
  case (Cons hit rest)
  show ?case
  proof (cases "hit_id hit")
    case (Inl e)
    with Cons.prems show ?thesis by simp
  next
    case (Inr orcid_id)
    show ?thesis
    proof (cases "truthy orcid_id")
      case False
      with Inr Cons.prems have "search_loop client net max_results rest results w = (Inr results', w')"
        by simp
      from Cons.IH [OF Cons.prems(1) this] Inr False show ?thesis by (simp add: hit_ids_Cons)
    next
      case True
      obtain fetched w1 where g: "get_researcher_info client net orcid_id w = (fetched, w1)"
        by (cases "get_researcher_info client net orcid_id w")
      from Inr True g Cons.prems
      have l: "search_loop client net max_results rest (results @ enriched orcid_id fetched) w1
                 = (Inr results', w')"
        by (auto simp: enriched_def split: sum.splits option.splits if_splits)
      obtain records w2 where f: "fetch_each client net (hit_ids rest) w1 = (records, w2)"
        by (cases "fetch_each client net (hit_ids rest) w1")
      from Cons.IH [OF Cons.prems(1) l] f
      have "results' = (results @ enriched orcid_id fetched) @ records" "w' = w2" by simp_all
      with Inr True g f show ?thesis by (simp add: hit_ids_Cons)
    qed
  qed
qed

lemma search_researchers_try_iff:
  "search_researchers_try client net query max_results w = (Inr results, w') \<Longrightarrow>
   search_researchers client net query max_results w = (Inr results, w')"
  by (simp add: search_researchers_eq_body search_researchers_body_def)

lemma search_researchers_try_nondebug:
  assumes "\<not> debug_mode client"
  shows "search_researchers_try client net query max_results w =
     (case net (search_request client query max_results) (remote w) of
        (Inl e, r1) \<Rightarrow>
          (Inl e, \<lparr>remote = r1, requests = requests w @ [search_request client query max_results]\<rparr>)
      | (Inr data, r1) \<Rightarrow>
          (case exn_bind (py_get data ''result'' (JArr [])) py_iter of
             Inl e \<Rightarrow>
               (Inl e, \<lparr>remote = r1,
                         requests = requests w @ [search_request client query max_results]\<rparr>)
           | Inr hits \<Rightarrow>
               search_loop client net max_results hits []
                 \<lparr>remote = r1, requests = requests w @ [search_request client query max_results]\<rparr>))"
  using assms
  by (simp add: search_researchers_try_def http_get_json_def search_request_def
           split: prod.splits sum.splits)

lemma search_researchers_try_completes:
  assumes nd: "\<not> debug_mode client"
    and t: "search_researchers_try client net query max_results w = (Inr results, w')"
  shows "\<exists>data r1 hits.
           net (search_request client query max_results) (remote w) = (Inr data, r1) \<and>
           exn_bind (py_get data ''result'' (JArr [])) py_iter = Inr hits \<and>
           search_loop client net max_results hits []
             \<lparr>remote = r1, requests = requests w @ [search_request client query max_results]\<rparr>
             = (Inr results, w')"
  using t unfolding search_researchers_try_nondebug [OF nd]
  by (auto split: prod.splits sum.splits)

lemma search_researchers_big_requests:
  assumes nd: "\<not> debug_mode client" and big: "max_results > 5"
    and s: "search_researchers client net query max_results w = (Inr results, w')"
  shows "requests w' = requests w @ [search_request client query max_results]"
proof -
  have "requests (snd (search_researchers_try client net query max_results w))
          = requests w @ [search_request client query max_results]"
  proof (cases "net (search_request client query max_results) (remote w)")
    case (Pair res1 r1)
    show ?thesis
    proof (cases res1)
      case (Inl e)
      with Pair show ?thesis by (simp add: search_researchers_try_nondebug [OF nd])
    next
      case (Inr data)
      show ?thesis
      proof (cases "exn_bind (py_get data ''result'' (JArr [])) py_iter")
        case (Inl e)
        with Pair Inr show ?thesis by (simp add: search_researchers_try_nondebug [OF nd])
      next
        case hits: (Inr hits)
        with Pair Inr show ?thesis
          by (simp add: search_researchers_try_nondebug [OF nd] search_loop_big [OF big])
      qed
    qed
  qed
  moreover have "w' = snd (search_researchers_try client net query max_results w)"
    using s by (auto simp: search_researchers_eq_body search_researchers_body_def
                     split: prod.splits sum.splits)
  ultimately show ?thesis by simp
qed

section \<open>Searching: which requests are made\<close>

text \<open>
  C4 (as the code has it). Outside debug mode the branch is on the requested
  \<open>max_results\<close>, not on the number of hits. With \<open>max_results > 5\<close> a search makes the
  search request and nothing else, and a search whose \<^verbatim>\<open>try\<close> block completes returns, in
  the order of the response, exactly the stubs of the hits that carry an identifier. With
  \<open>max_results \<le> 5\<close> a search whose \<^verbatim>\<open>try\<close> block completes makes, after the search
  request, one record request for each hit that carries an identifier, in the order of
  the hits, and returns exactly what fetching these identifiers one after the other
  gives: the fetched records, with the identifier stored under \<^verbatim>\<open>orcid_id\<close> and
  \<^verbatim>\<open>orcid\<close>, the fetches that returned nothing left out.
\<close>

theorem search_detail_fetch_follows_max_results:
  assumes "\<not> debug_mode client"
  shows "(max_results > 5 \<longrightarrow>
            search_researchers client net query max_results w = (Inr results, w') \<longrightarrow>
            requests w' = requests w @ [search_request client query max_results]) \<and>
         (max_results > 5 \<longrightarrow>
            search_researchers_try client net query max_results w = (Inr results, w') \<longrightarrow>
            search_researchers client net query max_results w = (Inr results, w') \<and>
            (\<exists>data r1 hits.
               net (search_request client query max_results) (remote w) = (Inr data, r1) \<and>
               exn_bind (py_get data ''result'' (JArr [])) py_iter = Inr hits \<and>
               list_all2 (\<lambda>found r. stub_profile (fst found) (snd found) = Inr r)
                 (identified_hits hits) results)) \<and>
         (max_results \<le> 5 \<longrightarrow>
            search_researchers_try client net query max_results w = (Inr results, w') \<longrightarrow>
            search_researchers client net query max_results w = (Inr results, w') \<and>
            (\<exists>data r1 hits.
               net (search_request client query max_results) (remote w) = (Inr data, r1) \<and>
               exn_bind (py_get data ''result'' (JArr [])) py_iter = Inr hits \<and>
               requests w' = requests w @ [search_request client query max_results] @
                               map (profile_request client) (hit_ids hits) \<and>
               fetch_each client net (hit_ids hits)
                 \<lparr>remote = r1, requests = requests w @ [search_request client query max_results]\<rparr>
                 = (results, w')))"
proof (intro conjI impI)
  assume "max_results > 5"
    and "search_researchers client net query max_results w = (Inr results, w')"
  then show "requests w' = requests w @ [search_request client query max_results]"
    by (rule search_researchers_big_requests [OF assms])
next
  assume big: "max_results > 5"
    and t: "search_researchers_try client net query max_results w = (Inr results, w')"
  from t show "search_researchers client net query max_results w = (Inr results, w')"
    by (rule search_researchers_try_iff)
  from search_researchers_try_completes [OF assms t] obtain data r1 hits where
    n: "net (search_request client query max_results) (remote w) = (Inr data, r1)"
    and h: "exn_bind (py_get data ''result'' (JArr [])) py_iter = Inr hits"
    and l: "search_loop client net max_results hits []
             \<lparr>remote = r1, requests = requests w @ [search_request client query max_results]\<rparr>
             = (Inr results, w')"
    by blast
  from search_loop_big_exact [OF big l]
  have "list_all2 (\<lambda>found r. stub_profile (fst found) (snd found) = Inr r)
          (identified_hits hits) results" by simp
  with n h show "\<exists>data r1 hits.
               net (search_request client query max_results) (remote w) = (Inr data, r1) \<and>
               exn_bind (py_get data ''result'' (JArr [])) py_iter = Inr hits \<and>
               list_all2 (\<lambda>found r. stub_profile (fst found) (snd found) = Inr r)
                 (identified_hits hits) results" by blast
next
  assume small: "max_results \<le> 5"
    and t: "search_researchers_try client net query max_results w = (Inr results, w')"
  from t show "search_researchers client net query max_results w = (Inr results, w')"
    by (rule search_researchers_try_iff)
  from search_researchers_try_completes [OF assms t] obtain data r1 hits where
    n: "net (search_request client query max_results) (remote w) = (Inr data, r1)"
    and h: "exn_bind (py_get data ''result'' (JArr [])) py_iter = Inr hits"
    and l: "search_loop client net max_results hits []
             \<lparr>remote = r1, requests = requests w @ [search_request client query max_results]\<rparr>
             = (Inr results, w')"
    by blast
  have ns: "\<not> max_results > 5" using small by simp
  from search_loop_small_requests [OF assms ns l]
  have rq: "requests w' = requests w @ [search_request client query max_results] @
                               map (profile_request client) (hit_ids hits)" by simp
  from search_loop_small_exact [OF ns l]
  have "fetch_each client net (hit_ids hits)
                 \<lparr>remote = r1, requests = requests w @ [search_request client query max_results]\<rparr>
                 = (results, w')"
    by (cases "fetch_each client net (hit_ids hits)
                 \<lparr>remote = r1, requests = requests w @ [search_request client query max_results]\<rparr>")
       simp
  with n h rq show "\<exists>data r1 hits.
               net (search_request client query max_results) (remote w) = (Inr data, r1) \<and>
               exn_bind (py_get data ''result'' (JArr [])) py_iter = Inr hits \<and>
               requests w' = requests w @ [search_request client query max_results] @
                               map (profile_request client) (hit_ids hits) \<and>
               fetch_each client net (hit_ids hits)
                 \<lparr>remote = r1, requests = requests w @ [search_request client query max_results]\<rparr>
                 = (results, w')" by blast
qed

lemma registry_not_debug: "\<not> debug_mode registry"
  by (simp add: registry_def)

lemma one_hit_search_10:
  "search_researchers_try registry one_hit_net ''Carberry'' 10 w0 =
     (Inr [carberry_stub], \<lparr>remote = (), requests = [search_request registry ''Carberry'' 10]\<rparr>)"
  by code_simp

lemma one_hit_search_5:
  "search_researchers_try registry one_hit_net ''Carberry'' 5 w0 =
     (Inr [carberry_profile],
      \<lparr>remote = (), requests = [search_request registry ''Carberry'' 5,
                                profile_request registry (JStr ''0000-0002-1825-0097'')]\<rparr>)"
  by code_simp

theorem search_detail_fetch_follows_max_results_witness:
  "\<not> debug_mode registry \<and>
   search_researchers_try registry one_hit_net ''Carberry'' 10 w0 =
     (Inr [carberry_stub], \<lparr>remote = (), requests = [search_request registry ''Carberry'' 10]\<rparr>) \<and>
   search_researchers registry one_hit_net ''Carberry'' 10 w0 =
     (Inr [carberry_stub], \<lparr>remote = (), requests = [search_request registry ''Carberry'' 10]\<rparr>) \<and>
   identified_hits [carberry_hit] = [(carberry_hit, JStr ''0000-0002-1825-0097'')] \<and>
   stub_profile carberry_hit (JStr ''0000-0002-1825-0097'') = Inr carberry_stub \<and>
   search_researchers_try registry one_hit_net ''Carberry'' 5 w0 =
     (Inr [carberry_profile],
      \<lparr>remote = (), requests = [search_request registry ''Carberry'' 5,
                                profile_request registry (JStr ''0000-0002-1825-0097'')]\<rparr>) \<and>
   search_researchers registry one_hit_net ''Carberry'' 5 w0 =
     (Inr [carberry_profile],
      \<lparr>remote = (), requests = [search_request registry ''Carberry'' 5,
                                profile_request registry (JStr ''0000-0002-1825-0097'')]\<rparr>) \<and>
   fetch_each registry one_hit_net [JStr ''0000-0002-1825-0097'']
     \<lparr>remote = (), requests = [search_request registry ''Carberry'' 5]\<rparr> =
     ([carberry_profile],
      \<lparr>remote = (), requests = [search_request registry ''Carberry'' 5,
                                profile_request registry (JStr ''0000-0002-1825-0097'')]\<rparr>)"
proof -
  have ten: "search_researchers registry one_hit_net ''Carberry'' 10 w0 =
     (Inr [carberry_stub], \<lparr>remote = (), requests = [search_request registry ''Carberry'' 10]\<rparr>)"
    using search_detail_fetch_follows_max_results [OF registry_not_debug,
      where max_results = 10 and net = one_hit_net and query = "''Carberry''" and w = w0
        and results = "[carberry_stub]"
        and w' = "\<lparr>remote = (), requests = [search_request registry ''Carberry'' 10]\<rparr>"]
      one_hit_search_10
    by simp
  have five: "search_researchers registry one_hit_net ''Carberry'' 5 w0 =
     (Inr [carberry_profile],
      \<lparr>remote = (), requests = [search_request registry ''Carberry'' 5,
                                profile_request registry (JStr ''0000-0002-1825-0097'')]\<rparr>)"
    using search_detail_fetch_follows_max_results [OF registry_not_debug,
      where max_results = 5 and net = one_hit_net and query = "''Carberry''" and w = w0
        and results = "[carberry_profile]"
        and w' = "\<lparr>remote = (), requests = [search_request registry ''Carberry'' 5,
                                profile_request registry (JStr ''0000-0002-1825-0097'')]\<rparr>"]
      one_hit_search_5
    by simp
  have ev: "identified_hits [carberry_hit] = [(carberry_hit, JStr ''0000-0002-1825-0097'')]"
    "stub_profile carberry_hit (JStr ''0000-0002-1825-0097'') = Inr carberry_stub"
    "fetch_each registry one_hit_net [JStr ''0000-0002-1825-0097'']
       \<lparr>remote = (), requests = [search_request registry ''Carberry'' 5]\<rparr> =
       ([carberry_profile],
        \<lparr>remote = (), requests = [search_request registry ''Carberry'' 5,
                                  profile_request registry (JStr ''0000-0002-1825-0097'')]\<rparr>)"
    by code_simp+
  from ten five ev one_hit_search_10 one_hit_search_5 registry_not_debug show ?thesis by blast
qed

text \<open>
  C4 as stated fails: a search with \<open>max_results = 10\<close> that has a single hit returns the
  stub of that hit and makes no record request.
\<close>

theorem search_one_hit_of_ten_counterexample:
  "hit_ids [carberry_hit] = [JStr ''0000-0002-1825-0097''] \<and>
   search_researchers registry one_hit_net ''Carberry'' 10 w0 =
     (Inr [carberry_stub], \<lparr>remote = (), requests = [search_request registry ''Carberry'' 10]\<rparr>) \<and>
   profile_request registry (JStr ''0000-0002-1825-0097'')
     \<notin> set (requests (snd (search_researchers registry one_hit_net ''Carberry'' 10 w0)))"
  by code_simp


section \<open>Matching: failures, single candidates, no candidates\<close>


lemma match_researcher_no_hits:
  assumes "search_researchers client net (build_query name keywords institution) 5 w = (Inr [], w')"
  shows "match_researcher client net name keywords institution w = (Inr None, w')"
  using assms by (simp add: match_researcher_def)




text \<open>
  C5. When the search of a match returns exactly one candidate, the match returns that
  candidate with \<^verbatim>\<open>match_confidence\<close> set to 0.7, whatever the candidate holds.
\<close>

theorem single_candidate_confidence:
  assumes "search_researchers client net (build_query name keywords institution) 5 w
             = (Inr [candidate], w')"
  shows "match_researcher client net name keywords institution w =
           (Inr (Some (dict_set candidate ''match_confidence'' (PyFloat (7 / 10)))), w') \<and>
         dict_get (dict_set candidate ''match_confidence'' (PyFloat (7 / 10))) ''match_confidence'' v
           = PyFloat (7 / 10)"
proof -
  have "\<not> dict_has candidate ''match_confidence''"
    using search_researchers_keys [OF assms] by simp
  then show ?thesis using assms
    by (simp add: match_researcher_def rank_def best_match_def dict_get_def dict_set_def update_conv')
qed

lemma one_hit_match_search:
  "search_researchers registry one_hit_net (build_query ''Josiah Carberry'' None None) 5 w0 =
     (Inr [carberry_profile],
      \<lparr>remote = (),
       requests = [search_request registry (build_query ''Josiah Carberry'' None None) 5,
                   profile_request registry (JStr ''0000-0002-1825-0097'')]\<rparr>)"
  by code_simp

theorem single_candidate_confidence_witness:
  "search_researchers registry one_hit_net (build_query ''Josiah Carberry'' None None) 5 w0 =
     (Inr [carberry_profile],
      \<lparr>remote = (),
       requests = [search_request registry (build_query ''Josiah Carberry'' None None) 5,
                   profile_request registry (JStr ''0000-0002-1825-0097'')]\<rparr>) \<and>
   match_researcher registry one_hit_net ''Josiah Carberry'' None None w0 =
     (Inr (Some (carberry_profile @ [(''match_confidence'', PyFloat (7 / 10))])),
      \<lparr>remote = (),
       requests = [search_request registry (build_query ''Josiah Carberry'' None None) 5,
                   profile_request registry (JStr ''0000-0002-1825-0097'')]\<rparr>)"
  using single_candidate_confidence [OF one_hit_match_search] one_hit_match_search
  by (simp add: dict_set_def carberry_profile_def)

text \<open>
  C6. When the search of a match returns no candidate, the match returns \<^verbatim>\<open>None\<close>, and the
  row loop of \<^verbatim>\<open>match_researchers_with_orcid\<close> leaves the database as it was and does not
  count a match.
\<close>

theorem no_candidates_no_match_no_write:
  assumes "search_researchers client net (build_query name keywords institution) 5 w = (Inr [], w')"
  shows "match_researcher client net name keywords institution w = (Inr None, w') \<and>
         match_row client net sq fault now ds rec_id name keywords institution (w, db) =
           (False, if name = [] then w else w', db)"
  using match_researcher_no_hits [OF assms]
  by (simp add: match_row_def)

lemma no_hits_match_search:
  "search_researchers registry no_hits_net (build_query ''Josiah Carberry'' None None) 5 w0 =
     (Inr [],
      \<lparr>remote = (),
       requests = [search_request registry (build_query ''Josiah Carberry'' None None) 5]\<rparr>)"
  by code_simp

theorem no_candidates_no_match_no_write_witness:
  "search_researchers registry no_hits_net (build_query ''Josiah Carberry'' None None) 5 w0 =
     (Inr [],
      \<lparr>remote = (),
       requests = [search_request registry (build_query ''Josiah Carberry'' None None) 5]\<rparr>) \<and>
   fst (match_researcher registry no_hits_net ''Josiah Carberry'' None None w0) = Inr None \<and>
   snd (snd (match_row registry no_hits_net sqlite0 None 0 1 ''7'' ''Josiah Carberry'' None None
               (w0, \<lparr>datasets = [], orcid_mappings = [], mapping_seq = 0\<rparr>))) =
     \<lparr>datasets = [], orcid_mappings = [], mapping_seq = 0\<rparr>"
  using no_candidates_no_match_no_write [OF no_hits_match_search, where sq = sqlite0
      and fault = None and now = 0
      and ds = 1 and rec_id = "''7''"
      and db = "\<lparr>datasets = [], orcid_mappings = [], mapping_seq = 0\<rparr>"]
    no_hits_match_search
  by simp


section \<open>Scoring: properties\<close>

lemma foldl_add_count:
  "foldl (\<lambda>c x. if P x then c + d else c) a xs = a + d * of_nat (length (filter P xs))"
  for a d :: rat
  by (induction xs arbitrary: a) (simp_all add: algebra_simps)

lemma institution_score_tokens:
  assumes "inst \<noteq> []" and "map_of researcher ''institution'' = Some (Json (JStr s))"
  shows "institution_score (Some inst) researcher confidence =
           Inr (confidence + 2 / 10 *
                  of_nat (length (filter (\<lambda>token. contains (lower token) (lower inst)) (split s))))"
  using assms
  by (simp add: institution_score_def dict_has_def dict_get_def exn_bind_def foldl_add_count
        filter_map comp_def)

lemma name_score_shift:
  "name_score name researcher c =
     (case name_score name researcher 0 of Inl e \<Rightarrow> Inl e | Inr n \<Rightarrow> Inr (c + n))"
  by (cases "pyval_lower (dict_get researcher ''name'' (Json (JStr [])))")
     (simp_all add: name_score_def exn_bind_def)

lemma name_score_nonneg: "name_score name researcher 0 = Inr n \<Longrightarrow> 0 \<le> n"
  by (cases "pyval_lower (dict_get researcher ''name'' (Json (JStr [])))")
     (auto simp: name_score_def exn_bind_def split: if_splits)

lemma keyword_score_shift:
  "keyword_score kws researcher c =
     (case keyword_score kws researcher 0 of Inl e \<Rightarrow> Inl e | Inr n \<Rightarrow> Inr (c + n))"
  by (auto simp: keyword_score_def exn_bind_def foldl_add_count split: option.splits sum.splits)

lemma keyword_score_nonneg: "keyword_score kws researcher 0 = Inr n \<Longrightarrow> 0 \<le> n"
  by (auto simp: keyword_score_def exn_bind_def foldl_add_count split: option.splits sum.splits if_splits)

lemma institution_score_shift:
  "institution_score institution researcher c =
     (case institution_score institution researcher 0 of Inl e \<Rightarrow> Inl e | Inr n \<Rightarrow> Inr (c + n))"
  by (auto simp: institution_score_def exn_bind_def foldl_add_count split: option.splits sum.splits)

lemma institution_score_nonneg: "institution_score institution researcher 0 = Inr n \<Longrightarrow> 0 \<le> n"
  by (auto simp: institution_score_def exn_bind_def foldl_add_count split: option.splits sum.splits if_splits)

lemma round2_bounds:
  assumes "0 \<le> x" and "x \<le> 1"
  shows "0 \<le> round2 x \<and> round2 x \<le> 1"
proof -
  let ?y = "x * 100"
  let ?f = "\<lfloor>?y\<rfloor>"
  have y: "0 \<le> ?y" "?y \<le> 100" using assms by simp_all
  have f0: "0 \<le> ?f" using y(1) by simp
  have f100: "?f \<le> 100" using y(2) by (simp add: floor_le_iff)
  have up: "?y - of_int ?f > 0 \<Longrightarrow> ?f + 1 \<le> 100"
  proof -
    assume "?y - of_int ?f > 0"
    then have "of_int ?f < ?y" by simp
    with y(2) have "of_int ?f < (100 :: rat)" by linarith
    then have "?f < 100" by linarith
    then show ?thesis by simp
  qed
  have a: "(0::rat) \<le> of_int ?f / 100" "(of_int ?f :: rat) / 100 \<le> 1"
    using f0 f100 by simp_all
  have b: "?y - of_int ?f > 0 \<Longrightarrow> (0::rat) \<le> of_int (?f + 1) / 100 \<and> (of_int (?f + 1) :: rat) / 100 \<le> 1"
  proof -
    assume h: "?y - of_int ?f > 0"
    have "(of_int (?f + 1) :: rat) \<le> 100" using up [OF h] by linarith
    moreover have "(0::rat) \<le> of_int (?f + 1)" using f0 by linarith
    ultimately show ?thesis by simp
  qed
  show ?thesis
    unfolding round2_def Let_def using a b by (auto split: if_splits)
qed


text \<open>
  C3 (as the code has it). When an institution is given and the candidate's institution is
  a str, the institution part of the score adds 0.2 for every whitespace-delimited token
  of the candidate's institution whose lower-cased text contains the lower-cased query
  institution: \<open>k\<close> such tokens add \<open>k\<close> times 0.2 before the cap.
\<close>

theorem institution_score_per_token:
  assumes "inst \<noteq> []" and "map_of researcher ''institution'' = Some (Json (JStr s))"
  shows "institution_score (Some inst) researcher confidence =
           Inr (confidence + 2 / 10 *
                  of_nat (length (filter (\<lambda>token. contains (lower token) (lower inst)) (split s))))"
  using assms by (rule institution_score_tokens)

theorem institution_score_per_token_witness:
  "''Lund'' \<noteq> [] \<and>
   map_of lund_candidate ''institution'' = Some (Json (JStr ''Lund University Lund'')) \<and>
   filter (\<lambda>token. contains (lower token) (lower ''Lund'')) (split ''Lund University Lund'')
     = [''Lund'', ''Lund''] \<and>
   institution_score (Some ''Lund'') lund_candidate 0 = Inr (4 / 10)"
proof -
  have a: "''Lund'' \<noteq> []" by simp
  have b: "map_of lund_candidate ''institution'' = Some (Json (JStr ''Lund University Lund''))"
    by (simp add: lund_candidate_def)
  have c: "filter (\<lambda>token. contains (lower token) (lower ''Lund'')) (split ''Lund University Lund'')
     = [''Lund'', ''Lund'']"
    by code_simp
  from institution_score_per_token [OF a b, of 0] a b c show ?thesis by simp
qed

text \<open>
  C3 as stated fails: for the query institution \<open>Lund\<close> and a candidate at
  \<open>Lund University Lund\<close>, two tokens match and the institution part adds 0.4, not 0.2;
  with no name match the candidate's confidence is 0.4.
\<close>

theorem institution_counted_twice_counterexample:
  "institution_score (Some ''Lund'') lund_candidate 0 = Inr (4 / 10) \<and>
   institution_score (Some ''Lund'') lund_candidate 0 \<noteq> Inr (2 / 10) \<and>
   candidate_confidence ''Bo Ek'' None (Some ''Lund'') lund_candidate = Inr (4 / 10)"
  by code_simp

lemma candidate_confidence_parts:
  assumes "candidate_confidence name kws institution researcher = Inr c"
  shows "0 \<le> c \<and> c \<le> 1 \<and>
         (\<exists>n k i. name_score name researcher 0 = Inr n \<and>
                  keyword_score kws researcher 0 = Inr k \<and>
                  institution_score institution researcher 0 = Inr i \<and>
                  0 \<le> n \<and> 0 \<le> k \<and> 0 \<le> i \<and>
                  c = round2 (min (n + k + i) 1))"
proof -
  from assms obtain c1 c2 c3 where
    s: "name_score name researcher 0 = Inr c1"
       "keyword_score kws researcher c1 = Inr c2"
       "institution_score institution researcher c2 = Inr c3"
       "c = round2 (min c3 1)"
    unfolding candidate_confidence_def by (auto dest!: exn_bind_Inr)
  from s(2) obtain k where k: "keyword_score kws researcher 0 = Inr k" "c2 = c1 + k"
    by (subst (asm) keyword_score_shift) (auto split: sum.splits)
  from s(3) obtain i where i: "institution_score institution researcher 0 = Inr i" "c3 = c2 + i"
    by (subst (asm) institution_score_shift) (auto split: sum.splits)
  have nn: "0 \<le> c1" "0 \<le> k" "0 \<le> i"
    using name_score_nonneg [OF s(1)] keyword_score_nonneg [OF k(1)]
      institution_score_nonneg [OF i(1)] by simp_all
  have "0 \<le> min c3 1" "min c3 1 \<le> 1" using nn k(2) i(2) by simp_all
  from round2_bounds [OF this] have "0 \<le> c \<and> c \<le> 1" using s(4) by simp
  moreover have "c = round2 (min (c1 + k + i) 1)" using s(4) k(2) i(2) by simp
  ultimately show ?thesis using s(1) k(1) i(1) nn by blast
qed

lemma round2_hundredths: "round2 (of_int j / 100) = of_int j / 100"
  by (simp add: round2_def)

lemma name_score_tenths: "name_score name researcher 0 = Inr n \<Longrightarrow> \<exists>j::int. n = of_int j / 10"
proof -
  assume a: "name_score name researcher 0 = Inr n"
  then have "n = 0 \<or> n = 5 / 10 \<or> n = 5 / 10 + 3 / 10"
    by (cases "pyval_lower (dict_get researcher ''name'' (Json (JStr [])))")
       (auto simp: name_score_def exn_bind_def split: if_splits)
  then consider "n = of_int 0 / 10" | "n = of_int 5 / 10" | "n = of_int 8 / 10" by auto
  then show ?thesis by (cases; blast)
qed

lemma keyword_score_count:
  assumes "keyword_score kws researcher 0 = Inr k"
  shows "\<exists>m::nat. k = 1 / 10 * of_nat m"
proof (cases "\<exists>ks. kws = Some ks \<and> ks \<noteq> [] \<and> dict_has researcher ''keywords''")
  case False
  with assms have "k = 1 / 10 * of_nat 0"
    by (auto simp: keyword_score_def split: option.splits if_splits)
  then show ?thesis by blast
next
  case True
  then obtain ks where ks: "kws = Some ks" "ks \<noteq> []" "dict_has researcher ''keywords''" by blast
  with assms obtain researcher_keywords where
    "k = foldl (\<lambda>c keyword. if lower keyword \<in> set researcher_keywords then c + 1 / 10 else c) 0 ks"
    by (auto simp: keyword_score_def dest!: exn_bind_Inr)
  then have "k = 1 / 10 * of_nat (length (filter (\<lambda>keyword. lower keyword \<in> set researcher_keywords) ks))"
    by (simp add: foldl_add_count)
  then show ?thesis by blast
qed

lemma keyword_score_tenths:
  "keyword_score kws researcher 0 = Inr k \<Longrightarrow> \<exists>j::int. k = of_int j / 10"
proof -
  assume "keyword_score kws researcher 0 = Inr k"
  from keyword_score_count [OF this] obtain m :: nat where "k = 1 / 10 * of_nat m" by blast
  then have "k = of_int (int m) / 10" by simp
  then show ?thesis by blast
qed

lemma institution_score_count:
  assumes "institution_score institution researcher 0 = Inr i"
  shows "\<exists>m::nat. i = 2 / 10 * of_nat m"
proof (cases "\<exists>inst. institution = Some inst \<and> inst \<noteq> [] \<and> dict_has researcher ''institution''")
  case False
  with assms have "i = 2 / 10 * of_nat 0"
    by (auto simp: institution_score_def split: option.splits if_splits)
  then show ?thesis by blast
next
  case True
  then obtain inst where
    inst: "institution = Some inst" "inst \<noteq> []" "dict_has researcher ''institution''" by blast
  with assms obtain tokens where
    "i = foldl (\<lambda>c affiliation. if contains affiliation (lower inst) then c + 2 / 10 else c) 0
           (map lower tokens)"
    by (auto simp: institution_score_def dest!: exn_bind_Inr)
  then have "i = 2 / 10 * of_nat (length (filter (\<lambda>affiliation. contains affiliation (lower inst))
                                     (map lower tokens)))"
    by (simp add: foldl_add_count)
  then show ?thesis by blast
qed

lemma institution_score_tenths:
  "institution_score institution researcher 0 = Inr i \<Longrightarrow> \<exists>j::int. i = of_int j / 10"
proof -
  assume "institution_score institution researcher 0 = Inr i"
  from institution_score_count [OF this] obtain m :: nat where "i = 2 / 10 * of_nat m" by blast
  then have "i = of_int (2 * int m) / 10" by simp
  then show ?thesis by blast
qed

lemma round2_capped_tenths:
  fixes jn jk ji :: int
  shows "round2 (min (of_int jn / 10 + of_int jk / 10 + of_int ji / 10) 1)
           = min (of_int jn / 10 + of_int jk / 10 + of_int ji / 10) 1"
proof -
  have "min (of_int jn / 10 + of_int jk / 10 + of_int ji / 10) (1 :: rat)
          = of_int (min (10 * (jn + jk + ji)) 100) / 100"
    by (simp add: min_def field_simps)
  then show ?thesis by (simp only: round2_hundredths)
qed

lemma candidate_confidence_exact:
  assumes "candidate_confidence name kws institution researcher = Inr c"
  shows "0 \<le> c \<and> c \<le> 1 \<and>
         (\<exists>n k i. name_score name researcher 0 = Inr n \<and>
                  keyword_score kws researcher 0 = Inr k \<and>
                  institution_score institution researcher 0 = Inr i \<and>
                  0 \<le> n \<and> 0 \<le> k \<and> 0 \<le> i \<and>
                  c = round2 (min (n + k + i) 1) \<and> c = min (n + k + i) 1)"
proof -
  from candidate_confidence_parts [OF assms] obtain n k i where
    p: "0 \<le> c" "c \<le> 1" "name_score name researcher 0 = Inr n"
       "keyword_score kws researcher 0 = Inr k"
       "institution_score institution researcher 0 = Inr i"
       "0 \<le> n" "0 \<le> k" "0 \<le> i" "c = round2 (min (n + k + i) 1)"
    by blast
  from name_score_tenths [OF p(3)] keyword_score_tenths [OF p(4)] institution_score_tenths [OF p(5)]
  obtain jn jk ji :: int where "n = of_int jn / 10" "k = of_int jk / 10" "i = of_int ji / 10"
    by blast
  with p(9) have "c = min (n + k + i) 1" by (simp only: round2_capped_tenths)
  with p show ?thesis by blast
qed

lemma score_all_scored:
  assumes "score_all name kws institution researchers = Inr scored"
  shows "list_all2
           (\<lambda>researcher s.
              \<exists>c n k i.
                s = dict_set researcher ''match_confidence'' (PyFloat c) \<and>
                0 \<le> c \<and> c \<le> 1 \<and>
                name_score name researcher 0 = Inr n \<and>
                keyword_score kws researcher 0 = Inr k \<and>
                institution_score institution researcher 0 = Inr i \<and>
                0 \<le> n \<and> 0 \<le> k \<and> 0 \<le> i \<and>
                c = round2 (min (n + k + i) 1) \<and> c = min (n + k + i) 1)
           researchers scored"
  using assms
proof (induction researchers arbitrary: scored)
  case Nil
  then show ?case by simp
next
  case (Cons researcher rest)
  from Cons.prems obtain c scored' where
    c: "candidate_confidence name kws institution researcher = Inr c"
    and r: "score_all name kws institution rest = Inr scored'"
    and e: "scored = dict_set researcher ''match_confidence'' (PyFloat c) # scored'"
    by (auto split: sum.splits)
  from candidate_confidence_exact [OF c] Cons.IH [OF r] e show ?case by auto
qed

lemma dict_get_set_same: "dict_get (dict_set d k v) k dflt = v"
  by (simp add: dict_get_def dict_set_def update_conv')

lemma best_match_scored:
  "dict_has first ''match_confidence'' \<Longrightarrow> best_match (first # rest) = Some first"
  by (simp add: best_match_def)

text \<open>
  C7. In the multi-candidate branch (the search of a match returned more than one
  candidate and the scoring loop completed), the ranked list is the candidates with their
  \<^verbatim>\<open>match_confidence\<close> set, sorted by it; each confidence is the sum of the candidate's
  name, keyword and institution parts, each at least 0, capped at 1 and rounded to two
  decimals, which on these sums of tenths changes nothing; it lies between 0 and 1. The
  match returns the first of the ranked list with the confidence it was given.
\<close>

theorem multi_candidate_confidence_capped:
  assumes s: "search_researchers client net (build_query name kws institution) 5 w
                = (Inr researchers, w')"
    and many: "length researchers > 1"
    and r: "rank name kws institution researchers = Inr ranked"
  shows "\<exists>scored best rest.
           list_all2
             (\<lambda>researcher s.
                \<exists>c n k i.
                  s = dict_set researcher ''match_confidence'' (PyFloat c) \<and>
                  0 \<le> c \<and> c \<le> 1 \<and>
                  name_score name researcher 0 = Inr n \<and>
                  keyword_score kws researcher 0 = Inr k \<and>
                  institution_score institution researcher 0 = Inr i \<and>
                  0 \<le> n \<and> 0 \<le> k \<and> 0 \<le> i \<and>
                  c = round2 (min (n + k + i) 1) \<and> c = min (n + k + i) 1)
             researchers scored \<and>
           ranked = sort_by_confidence scored \<and>
           ranked = best # rest \<and>
           match_researcher client net name kws institution w = (Inr (Some best), w') \<and>
           (\<forall>s \<in> set ranked.
              \<exists>c. dict_get s ''match_confidence'' (Json (JInt 0)) = PyFloat c \<and> 0 \<le> c \<and> c \<le> 1)"
proof -
  from r many obtain scored where
    sc: "score_all name kws institution researchers = Inr scored"
    and rk: "ranked = sort_by_confidence scored"
    by (auto simp: rank_def dest!: exn_bind_Inr)
  let ?P = "\<lambda>researcher s.
                \<exists>c n k i.
                  s = dict_set researcher ''match_confidence'' (PyFloat c) \<and>
                  0 \<le> c \<and> c \<le> 1 \<and>
                  name_score name researcher 0 = Inr n \<and>
                  keyword_score kws researcher 0 = Inr k \<and>
                  institution_score institution researcher 0 = Inr i \<and>
                  0 \<le> n \<and> 0 \<le> k \<and> 0 \<le> i \<and>
                  c = round2 (min (n + k + i) 1) \<and> c = min (n + k + i) 1"
  have la: "list_all2 ?P researchers scored" by (rule score_all_scored [OF sc])
  have each: "\<forall>s \<in> set scored.
      \<exists>c. dict_get s ''match_confidence'' (Json (JInt 0)) = PyFloat c \<and> 0 \<le> c \<and> c \<le> 1 \<and>
          dict_has s ''match_confidence''"
  proof
    fix s assume "s \<in> set scored"
    then obtain j where j: "j < length scored" "s = scored ! j" by (auto simp: in_set_conv_nth)
    with la have "?P (researchers ! j) s" by (auto simp: list_all2_conv_all_nth)
    then obtain c where "s = dict_set (researchers ! j) ''match_confidence'' (PyFloat c)"
      "0 \<le> c" "c \<le> 1" by blast
    then show "\<exists>c. dict_get s ''match_confidence'' (Json (JInt 0)) = PyFloat c \<and> 0 \<le> c \<and> c \<le> 1 \<and>
          dict_has s ''match_confidence''"
      by (auto simp: dict_get_set_same dict_has_set)
  qed
  have st: "set ranked = set scored" using rk by (simp add: sort_by_confidence_def)
  have "length ranked = length researchers"
    using rk la by (simp add: sort_by_confidence_def list_all2_lengthD)
  with many obtain best rest where br: "ranked = best # rest" by (cases ranked) auto
  then have "best \<in> set scored" using st by auto
  with each have "dict_has best ''match_confidence''" by blast
  then have bm: "best_match ranked = Some best" using br by (simp add: best_match_scored)
  have "researchers \<noteq> []" using many by auto
  then have m: "match_researcher client net name kws institution w = (Inr (Some best), w')"
    using s r bm by (simp add: match_researcher_def)
  from la rk br m each st show ?thesis by blast
qed

lemma two_hits_search:
  "search_researchers registry two_hits_net
     (build_query ''John Smith'' (Some [''physics'', ''quantum'', ''optics'']) (Some ''MIT'')) 5 w0 =
     (Inr [jon_profile, smith_profile],
      \<lparr>remote = (),
       requests =
         [search_request registry
            (build_query ''John Smith'' (Some [''physics'', ''quantum'', ''optics'']) (Some ''MIT'')) 5,
          profile_request registry (JStr ''0000-0001-5109-3700''),
          profile_request registry (JStr ''0000-0002-1694-233X'')]\<rparr>)"
  by code_simp

lemma two_hits_rank:
  "rank ''John Smith'' (Some [''physics'', ''quantum'', ''optics'']) (Some ''MIT'')
     [jon_profile, smith_profile] =
     Inr [smith_profile @ [(''match_confidence'', PyFloat 1)],
          jon_profile @ [(''match_confidence'', PyFloat (2 / 10))]]"
  by code_simp

theorem multi_candidate_confidence_capped_witness:
  "search_researchers registry two_hits_net
     (build_query ''John Smith'' (Some [''physics'', ''quantum'', ''optics'']) (Some ''MIT'')) 5 w0 =
     (Inr [jon_profile, smith_profile],
      \<lparr>remote = (),
       requests =
         [search_request registry
            (build_query ''John Smith'' (Some [''physics'', ''quantum'', ''optics'']) (Some ''MIT'')) 5,
          profile_request registry (JStr ''0000-0001-5109-3700''),
          profile_request registry (JStr ''0000-0002-1694-233X'')]\<rparr>) \<and>
   length [jon_profile, smith_profile] > 1 \<and>
   rank ''John Smith'' (Some [''physics'', ''quantum'', ''optics'']) (Some ''MIT'')
     [jon_profile, smith_profile] =
     Inr [smith_profile @ [(''match_confidence'', PyFloat 1)],
          jon_profile @ [(''match_confidence'', PyFloat (2 / 10))]] \<and>
   name_score ''John Smith'' smith_profile 0 = Inr (8 / 10) \<and>
   keyword_score (Some [''physics'', ''quantum'', ''optics'']) smith_profile 0 = Inr (3 / 10) \<and>
   institution_score (Some ''MIT'') smith_profile 0 = Inr (2 / 10) \<and>
   min (8 / 10 + 3 / 10 + 2 / 10) (1 :: rat) = 1 \<and>
   fst (match_researcher registry two_hits_net ''John Smith''
          (Some [''physics'', ''quantum'', ''optics'']) (Some ''MIT'') w0) =
     Inr (Some (smith_profile @ [(''match_confidence'', PyFloat 1)]))"
proof -
  have many: "length [jon_profile, smith_profile] > 1" by simp
  have parts: "name_score ''John Smith'' smith_profile 0 = Inr (8 / 10)"
      "keyword_score (Some [''physics'', ''quantum'', ''optics'']) smith_profile 0 = Inr (3 / 10)"
      "institution_score (Some ''MIT'') smith_profile 0 = Inr (2 / 10)"
    by code_simp+
  from multi_candidate_confidence_capped [OF two_hits_search many two_hits_rank]
  obtain best rest where
    "[smith_profile @ [(''match_confidence'', PyFloat 1)],
      jon_profile @ [(''match_confidence'', PyFloat (2 / 10))]] = best # rest"
    and m: "fst (match_researcher registry two_hits_net ''John Smith''
          (Some [''physics'', ''quantum'', ''optics'']) (Some ''MIT'') w0) = Inr (Some best)"
    by fastforce
  then have "best = smith_profile @ [(''match_confidence'', PyFloat 1)]" by simp
  with m two_hits_search many two_hits_rank parts show ?thesis by simp
qed

section \<open>The mapping table: properties\<close>

lemma foldl_max_Max: "foldl max (a :: int) xs = Max (insert a (set xs))"
proof (induction xs arbitrary: a)
  case Nil
  then show ?case by simp
next
  case (Cons x xs)
  have "Max (insert (max a x) (set xs)) = Max (insert a (insert x (set xs)))"
    by (cases "set xs = {}") (simp_all add: max.assoc max.commute max.left_commute)
  with Cons show ?case by simp
qed

lemma largest_row_id_bounds:
  "mapping_seq db \<le> largest_row_id db"
  "r \<in> set (orcid_mappings db) \<Longrightarrow> row_id r \<le> largest_row_id db"
  by (simp_all add: largest_row_id_def foldl_max_Max)

lemma largest_row_id_after:
  "largest_row_id
     (db\<lparr>orcid_mappings := orcid_mappings db @ [new_row\<lparr>row_id := largest_row_id db + 1\<rparr>],
         mapping_seq := largest_row_id db + 1, datasets := ds'\<rparr>)
     = largest_row_id db + 1"
proof -
  have "\<forall>r \<in> set (orcid_mappings db). row_id r \<le> largest_row_id db + 1"
    using largest_row_id_bounds(2) [of _ db] by fastforce
  then have "Max (insert (largest_row_id db + 1) (row_id ` set (orcid_mappings db)))
               = largest_row_id db + 1"
    by (intro Max_eqI) auto
  then show ?thesis
    by (simp add: largest_row_id_def [of "db\<lparr>orcid_mappings := _, mapping_seq := _, datasets := _\<rparr>"]
          foldl_max_Max)
qed

lemma register_appends:
  assumes "int64 ds" and "int64 (largest_row_id db + 1)"
  shows "register_orcid_mapping sq None now db ds rec_id (Json (JStr C)) (PyFloat c) =
           (True,
            db\<lparr>orcid_mappings := orcid_mappings db @
                   [\<lparr>row_id = largest_row_id db + 1, dataset_id = ds, record_id = rec_id,
                     orcid = SqlText C, match_confidence = SqlReal c, match_date = now\<rparr>],
               mapping_seq := largest_row_id db + 1,
               datasets := map (\<lambda>d. if ds_id d = ds then d\<lparr>orcid_linked := True\<rparr> else d)
                             (datasets db)\<rparr>)"
  using assms by (simp add: register_orcid_mapping_def)

lemma register_largest:
  assumes "int64 ds" and "int64 (largest_row_id db + 1)"
  shows "largest_row_id (snd (register_orcid_mapping sq None now db ds rec_id (Json (JStr C)) (PyFloat c)))
           = largest_row_id db + 1"
  using largest_row_id_after
          [where db = db
             and new_row = "\<lparr>row_id = 0, dataset_id = ds, record_id = rec_id,
                  orcid = SqlText C, match_confidence = SqlReal c, match_date = now\<rparr>"]
  by (simp add: register_appends [OF assms])

text \<open>
  C2 (as the code has it). \<^verbatim>\<open>register_orcid_mapping\<close> is a plain insert: for a dataset
  id of 64 bits and a table with room for two more keys, writing \<open>(X, C, c1)\<close> and then
  \<open>(X, C, c2)\<close> succeeds twice and adds two rows for \<open>X\<close> after the ones the dataset had,
  with the next two keys; the first keeps \<open>c1\<close> and the date of its insert, the second
  carries \<open>c2\<close>.
\<close>

theorem register_twice_adds_two_rows:
  assumes "int64 ds"
    and "int64 (largest_row_id db + 1)"
    and "int64 (largest_row_id db + 2)"
  shows "(case register_orcid_mapping sq None t1 db ds X (Json (JStr C)) (PyFloat c1) of
      (ok1, db1) \<Rightarrow>
        (case register_orcid_mapping sq None t2 db1 ds X (Json (JStr C)) (PyFloat c2) of
           (ok2, db2) \<Rightarrow>
             ok1 \<and> ok2 \<and>
             mappings_for db2 ds X =
               mappings_for db ds X @
               [\<lparr>row_id = largest_row_id db + 1, dataset_id = ds, record_id = X,
                 orcid = SqlText C, match_confidence = SqlReal c1, match_date = t1\<rparr>,
                \<lparr>row_id = largest_row_id db + 2, dataset_id = ds, record_id = X,
                 orcid = SqlText C, match_confidence = SqlReal c2, match_date = t2\<rparr>] \<and>
             length (mappings_for db2 ds X) = length (mappings_for db ds X) + 2))"
proof -
  let ?db1 = "db\<lparr>orcid_mappings := orcid_mappings db @
                   [\<lparr>row_id = largest_row_id db + 1, dataset_id = ds, record_id = X,
                     orcid = SqlText C, match_confidence = SqlReal c1, match_date = t1\<rparr>],
               mapping_seq := largest_row_id db + 1,
               datasets := map (\<lambda>d. if ds_id d = ds then d\<lparr>orcid_linked := True\<rparr> else d)
                             (datasets db)\<rparr>"
  have f1: "register_orcid_mapping sq None t1 db ds X (Json (JStr C)) (PyFloat c1) = (True, ?db1)"
    by (rule register_appends [OF assms(1,2)])
  have l1: "largest_row_id ?db1 = largest_row_id db + 1"
    using register_largest [OF assms(1,2), of sq t1 X C c1] by (simp only: f1 snd_conv)
  then have "largest_row_id ?db1 + 1 = largest_row_id db + 2" by simp
  then have i2: "int64 (largest_row_id ?db1 + 1)" using assms(3) by (simp only:)
  note f2 = register_appends [OF assms(1) i2, of sq t2 X C c2]
  show ?thesis
    apply (simp only: f1 prod.case f2)
    apply (simp only: l1)
    using assms(1)
    by (simp add: mappings_for_def get_orcid_mappings_def)
qed

lemma db0_room: "int64 1" "int64 (largest_row_id db0 + 1)" "int64 (largest_row_id db0 + 2)"
  by (simp_all add: int64_def largest_row_id_def db0_def)

theorem register_twice_adds_two_rows_witness:
  "int64 1 \<and> int64 (largest_row_id db0 + 1) \<and> int64 (largest_row_id db0 + 2) \<and>
   mappings_for
     (snd (register_orcid_mapping sqlite0 None 20
             (snd (register_orcid_mapping sqlite0 None 10 db0 1 ''7''
                     (Json (JStr ''0000-0002-1825-0097'')) (PyFloat (7 / 10))))
             1 ''7'' (Json (JStr ''0000-0002-1825-0097'')) (PyFloat (9 / 10)))) 1 ''7'' =
     [\<lparr>row_id = 1, dataset_id = 1, record_id = ''7'',
       orcid = SqlText ''0000-0002-1825-0097'', match_confidence = SqlReal (7 / 10),
       match_date = 10\<rparr>,
      \<lparr>row_id = 2, dataset_id = 1, record_id = ''7'',
       orcid = SqlText ''0000-0002-1825-0097'', match_confidence = SqlReal (9 / 10),
       match_date = 20\<rparr>]"
proof -
  have l: "largest_row_id db0 = 0" by (simp add: largest_row_id_def db0_def)
  have m: "mappings_for db0 1 ''7'' = []"
    by (simp add: mappings_for_def get_orcid_mappings_def db0_def)
  from register_twice_adds_two_rows [OF db0_room, where sq = sqlite0 and ?t1.0 = 10
         and ?t2.0 = 20 and X = "''7''" and C = "''0000-0002-1825-0097''"
         and ?c1.0 = "7 / 10" and ?c2.0 = "9 / 10"]
  show ?thesis using db0_room l m by (simp split: prod.splits)
qed

text \<open>
  C2 as stated fails: after the two writes the record has two mapping rows, and the first
  still holds the confidence written first.
\<close>

theorem register_twice_two_rows_counterexample:
  "length (mappings_for
     (snd (register_orcid_mapping sqlite0 None 20
             (snd (register_orcid_mapping sqlite0 None 10 db0 1 ''7''
                     (Json (JStr ''0000-0002-1825-0097'')) (PyFloat (7 / 10))))
             1 ''7'' (Json (JStr ''0000-0002-1825-0097'')) (PyFloat (9 / 10)))) 1 ''7'') = 2 \<and>
   map match_confidence (mappings_for
     (snd (register_orcid_mapping sqlite0 None 20
             (snd (register_orcid_mapping sqlite0 None 10 db0 1 ''7''
                     (Json (JStr ''0000-0002-1825-0097'')) (PyFloat (7 / 10))))
             1 ''7'' (Json (JStr ''0000-0002-1825-0097'')) (PyFloat (9 / 10)))) 1 ''7'')
     = [SqlReal (7 / 10), SqlReal (9 / 10)]"
  by code_simp

section \<open>Publication authors: properties\<close>

lemma authors_extract: "authors (extract_article article) = article_authors article"
  by (simp add: extract_article_def)

text \<open>
  C10 (as the code has it). An author with both names is written family name first,
  \<open>LastName ForeName\<close>, joined by one space; an author with one of them is that name, an
  author with neither is left out. \<^verbatim>\<open>to_dataframe\<close> joins the names of an article with
  a comma and a space into \<^verbatim>\<open>authors_str\<close>.
\<close>

theorem author_names_family_first:
  "author_name \<lparr>LastName = Some l, ForeName = Some f\<rparr> = Some (l @ '' '' @ f) \<and>
   author_name \<lparr>LastName = Some l, ForeName = None\<rparr> = Some l \<and>
   author_name \<lparr>LastName = None, ForeName = Some f\<rparr> = Some f \<and>
   author_name \<lparr>LastName = None, ForeName = None\<rparr> = None \<and>
   map authors (to_dataframe (extract_articles soup)) =
     map (\<lambda>article. case AuthorList article of
                       None \<Rightarrow> []
                     | Some author_list \<Rightarrow> List.map_filter author_name author_list) soup \<and>
   map authors_str (to_dataframe (extract_articles soup)) =
     map (\<lambda>article. Some (py_join '', '' (authors (extract_article article)))) soup"
  by (simp add: author_name_def to_dataframe_def extract_articles_def comp_def authors_extract
        article_authors_def)

theorem author_names_family_first_witness:
  "author_name \<lparr>LastName = Some ''Curie'', ForeName = Some ''Marie''\<rparr> = Some ''Curie Marie'' \<and>
   map authors (to_dataframe (extract_articles [two_author_article]))
     = [[''Smith John'', ''Curie Marie'']] \<and>
   map authors_str (to_dataframe (extract_articles [two_author_article]))
     = [Some ''Smith John, Curie Marie'']"
proof -
  have "List.map_filter author_name
          [\<lparr>LastName = Some ''Smith'', ForeName = Some ''John''\<rparr>,
           \<lparr>LastName = Some ''Curie'', ForeName = Some ''Marie''\<rparr>]
        = [''Smith John'', ''Curie Marie'']"
    by code_simp
  moreover have "py_join '', '' (authors (extract_article two_author_article))
        = ''Smith John, Curie Marie''"
    by code_simp
  ultimately show ?thesis
    using author_names_family_first [where l = "''Curie''" and f = "''Marie''"
        and soup = "[two_author_article]"]
    by (simp add: two_author_article_def)
qed

text \<open>
  C10 as stated fails: John Smith is written \<open>Smith John\<close>, not \<open>John Smith\<close>.
\<close>

theorem author_given_name_first_counterexample:
  "author_name \<lparr>LastName = Some ''Smith'', ForeName = Some ''John''\<rparr> = Some ''Smith John'' \<and>
   author_name \<lparr>LastName = Some ''Smith'', ForeName = Some ''John''\<rparr> \<noteq> Some ''John Smith'' \<and>
   map authors_str (to_dataframe (extract_articles [two_author_article]))
     = [Some ''Smith John, Curie Marie'']"
  by code_simp

end
